theory Spec2Isabelle
  imports Complex_Main "HOL-Library.Log_Nat"
begin

section \<open>JavaScript values\<close>

subsection \<open>Numbers\<close>

text \<open>
  A JavaScript number is an IEEE 754 binary64 value.  The finite ones are rationals; the
  two infinities and NaN are separate constructors.  Zero is unsigned: the sign of a zero
  is observable only by dividing by it, and the handlers divide by request fields only.
\<close>

datatype number = Fin rat | PosInf | NegInf | NaN

text \<open>\<open>expo a\<close> is the binary exponent of a positive rational: \<open>2 powi expo a \<le> a < 2 powi (expo a + 1)\<close>.\<close>

definition expo :: "rat \<Rightarrow> int" where
  "expo a = (let (p, q) = quotient_of a; d = bitlen p - bitlen q
             in if 2 powi d \<le> a then d else d - 1)"

text \<open>Round to the nearest integer, ties to even.\<close>

definition rne :: "rat \<Rightarrow> int" where
  "rne m = (let n = \<lfloor>m\<rfloor>; f = m - of_int n
            in if f < 1 / 2 then n else if 1 / 2 < f then n + 1
               else if even n then n else n + 1)"

text \<open>
  Rounding of a positive magnitude to 53 significant bits; below \<open>2 powi (- 1022)\<close> the
  spacing stays that of the subnormal numbers, \<open>2 powi (- 1074)\<close>.
\<close>

definition round_mag :: "rat \<Rightarrow> rat" where
  "round_mag a = (let e = max (expo a) (- 1022); ulp = 2 powi (e - 52)
                  in of_int (rne (a / ulp)) * ulp)"

text \<open>The binary64 value of an exact result: round to nearest even, overflow to an infinity.\<close>

definition round_double :: "rat \<Rightarrow> number" where
  "round_double x =
     (if x = 0 then Fin 0
      else let r = round_mag \<bar>x\<bar>
           in if 2 powi 1024 \<le> r then (if 0 < x then PosInf else NegInf)
              else Fin (if 0 < x then r else - r))"

text \<open>The operators \<^verbatim>\<open>/\<close>, \<^verbatim>\<open>*\<close>, \<^verbatim>\<open>-\<close> and \<^verbatim>\<open>>=\<close> on numbers.\<close>

fun js_div :: "number \<Rightarrow> number \<Rightarrow> number" where
  "js_div (Fin a) (Fin b) =
     (if b = 0 then (if a = 0 then NaN else if 0 < a then PosInf else NegInf)
      else round_double (a / b))"
| "js_div NaN _ = NaN"
| "js_div _ NaN = NaN"
| "js_div (Fin a) PosInf = Fin 0"
| "js_div (Fin a) NegInf = Fin 0"
| "js_div PosInf (Fin b) = (if 0 \<le> b then PosInf else NegInf)"
| "js_div NegInf (Fin b) = (if 0 \<le> b then NegInf else PosInf)"
| "js_div PosInf PosInf = NaN"
| "js_div PosInf NegInf = NaN"
| "js_div NegInf PosInf = NaN"
| "js_div NegInf NegInf = NaN"

fun js_mul :: "number \<Rightarrow> number \<Rightarrow> number" where
  "js_mul (Fin a) (Fin b) = round_double (a * b)"
| "js_mul NaN _ = NaN"
| "js_mul _ NaN = NaN"
| "js_mul (Fin a) PosInf = (if a = 0 then NaN else if 0 < a then PosInf else NegInf)"
| "js_mul (Fin a) NegInf = (if a = 0 then NaN else if 0 < a then NegInf else PosInf)"
| "js_mul PosInf (Fin b) = (if b = 0 then NaN else if 0 < b then PosInf else NegInf)"
| "js_mul NegInf (Fin b) = (if b = 0 then NaN else if 0 < b then NegInf else PosInf)"
| "js_mul PosInf PosInf = PosInf"
| "js_mul PosInf NegInf = NegInf"
| "js_mul NegInf PosInf = NegInf"
| "js_mul NegInf NegInf = PosInf"

fun js_sub :: "number \<Rightarrow> number \<Rightarrow> number" where
  "js_sub (Fin a) (Fin b) = round_double (a - b)"
| "js_sub NaN _ = NaN"
| "js_sub _ NaN = NaN"
| "js_sub (Fin a) PosInf = NegInf"
| "js_sub (Fin a) NegInf = PosInf"
| "js_sub PosInf (Fin b) = PosInf"
| "js_sub NegInf (Fin b) = NegInf"
| "js_sub PosInf PosInf = NaN"
| "js_sub PosInf NegInf = PosInf"
| "js_sub NegInf PosInf = NegInf"
| "js_sub NegInf NegInf = NaN"

fun js_ge :: "number \<Rightarrow> number \<Rightarrow> bool" where
  "js_ge (Fin a) (Fin b) = (b \<le> a)"
| "js_ge NaN _ = False"
| "js_ge _ NaN = False"
| "js_ge PosInf _ = True"
| "js_ge NegInf NegInf = True"
| "js_ge NegInf _ = False"
| "js_ge (Fin a) PosInf = False"
| "js_ge (Fin a) NegInf = True"

text \<open>\<^verbatim>\<open>Math.round\<close>: the nearest integer, a tie going towards plus infinity.\<close>

fun Math_round :: "number \<Rightarrow> number" where
  "Math_round (Fin x) = Fin (of_int \<lfloor>x + 1 / 2\<rfloor>)"
| "Math_round n = n"

text \<open>The number an integer literal of a JSON text denotes.\<close>

definition num :: "int \<Rightarrow> number" where
  "num n = round_double (of_int n)"

subsection \<open>Strings\<close>

text \<open>
  Strings are sequences of code units below 256.  In that range the white space of
  \<^verbatim>\<open>\s\<close> and of \<^verbatim>\<open>trim\<close> is TAB, LF, VT, FF, CR, SPACE and NBSP, and the letters with a
  lower-case form are A to Z and U+00C0 to U+00DE without U+00D7; the lower-case form
  is 32 above the letter, which sets bit 5 of the code unit.
\<close>

definition isSpace :: "char \<Rightarrow> bool" where
  "isSpace c = (c \<in> set [CHR 0x09, CHR 0x0A, CHR 0x0B, CHR 0x0C, CHR 0x0D, CHR 0x20, CHR 0xA0])"

definition isDigit :: "char \<Rightarrow> bool" where
  "isDigit c = (c \<in> set ''0123456789'')"

definition trim :: "string \<Rightarrow> string" where
  "trim s = rev (dropWhile isSpace (rev (dropWhile isSpace s)))"

definition toLowerChar :: "char \<Rightarrow> char" where
  "toLowerChar c =
     (let n = (of_char c :: nat)
      in if (65 \<le> n \<and> n \<le> 90) \<or> (192 \<le> n \<and> n \<le> 222 \<and> n \<noteq> 215)
         then (case c of Char b0 b1 b2 b3 b4 b5 b6 b7 \<Rightarrow> Char b0 b1 b2 b3 b4 True b6 b7)
         else c)"

definition toLowerCase :: "string \<Rightarrow> string" where
  "toLowerCase s = map toLowerChar s"

text \<open>
  \<^verbatim>\<open>s.split(/[...]+/)\<close> for a character class \<open>sep\<close>: the pieces between the maximal runs of
  separators, with an empty piece before a leading run and after a trailing one.
\<close>

function split :: "(char \<Rightarrow> bool) \<Rightarrow> string \<Rightarrow> string list" where
  "split sep [] = [[]]"
| "split sep (c # cs) =
     (if sep c then [] # split sep (dropWhile sep cs)
      else (case split sep cs of [] \<Rightarrow> [[c]] | x # xs \<Rightarrow> (c # x) # xs))"
  by pat_completeness auto
termination
  by (relation "measure (\<lambda>(sep, s). length s)")
     (auto simp: le_imp_less_Suc length_dropWhile_le)

text \<open>\<^verbatim>\<open>s.replace(/\s+/g, '-')\<close>: every maximal run of white space becomes one hyphen.\<close>

function replaceSpaces :: "string \<Rightarrow> string" where
  "replaceSpaces [] = []"
| "replaceSpaces (c # cs) =
     (if isSpace c then CHR ''-'' # replaceSpaces (dropWhile isSpace cs)
      else c # replaceSpaces cs)"
  by pat_completeness auto
termination
  by (relation "measure length") (auto simp: le_imp_less_Suc length_dropWhile_le)

text \<open>\<^verbatim>\<open>s.replace(/^\d+\.?\s*/, '')\<close>: a leading number, one full stop and white space after it.\<close>

definition removeLeadingNumber :: "string \<Rightarrow> string" where
  "removeLeadingNumber s =
     (case s of
        [] \<Rightarrow> []
      | c # _ \<Rightarrow>
          if isDigit c
          then (let r = dropWhile isDigit s;
                    r' = (case r of [] \<Rightarrow> [] | d # t \<Rightarrow> if d = CHR ''.'' then t else r)
                in dropWhile isSpace r')
          else s)"

subsection \<open>JSON values, property access, truthiness\<close>

datatype json =
    JNull
  | JBool bool
  | JNum number
  | JStr string
  | JArr "json list"
  | JObj "(string \<times> json) list"

text \<open>
  A thrown exception: an \<^verbatim>\<open>Error\<close> with its message, a \<^verbatim>\<open>TypeError\<close> of the runtime
  (a property read of \<^verbatim>\<open>null\<close>, a call of a method the value does not have), or the
  \<^verbatim>\<open>SyntaxError\<close> of \<^verbatim>\<open>JSON.parse\<close> with its message.
\<close>

datatype error = Error string | TypeError | SyntaxError string

text \<open>
  \<open>None\<close> is \<^verbatim>\<open>undefined\<close>.  \<open>getProp v k\<close> reads the own property \<open>k\<close> of a value that is not
  \<^verbatim>\<open>null\<close>; the keys read by the handlers are no built-in properties of arrays, strings,
  numbers or booleans.
\<close>

fun getProp :: "json \<Rightarrow> string \<Rightarrow> json option" where
  "getProp (JObj kvs) k = map_of kvs k"
| "getProp _ k = None"

fun truthy :: "json option \<Rightarrow> bool" where
  "truthy None = False"
| "truthy (Some JNull) = False"
| "truthy (Some (JBool b)) = b"
| "truthy (Some (JNum n)) = (n \<noteq> Fin 0 \<and> n \<noteq> NaN)"
| "truthy (Some (JStr s)) = (s \<noteq> [])"
| "truthy (Some (JArr xs)) = True"
| "truthy (Some (JObj kvs)) = True"

text \<open>The operators \<^verbatim>\<open>a || b\<close> and \<^verbatim>\<open>a ?? d\<close>, the latter with a default that is a value.\<close>

definition js_or :: "json option \<Rightarrow> json option \<Rightarrow> json option" where
  "js_or a b = (if truthy a then a else b)"

definition nullish :: "json option \<Rightarrow> json \<Rightarrow> json" where
  "nullish a d = (case a of None \<Rightarrow> d | Some v \<Rightarrow> if v = JNull then d else v)"

text \<open>\<^verbatim>\<open>a || d\<close> with a default \<open>d\<close> that is a value.\<close>

definition orElse :: "json option \<Rightarrow> json \<Rightarrow> json" where
  "orElse a d = (case a of None \<Rightarrow> d | Some v \<Rightarrow> if truthy (Some v) then v else d)"

text \<open>
  The conversion of a value to a string (in a template, as a property key) or to a number
  (\<^verbatim>\<open>Math.round\<close>, a comparison) throws a \<^verbatim>\<open>TypeError\<close> only for an object that cannot be
  made a primitive.  An object read from JSON inherits \<^verbatim>\<open>toString\<close> and \<^verbatim>\<open>valueOf\<close>, of which
  only \<^verbatim>\<open>toString\<close> gives a primitive; an own property \<^verbatim>\<open>toString\<close> hides it, and is no
  function.  An array is joined, which converts its elements.
\<close>

fun converts :: "json \<Rightarrow> bool" where
  "converts (JObj kvs) = (map_of kvs ''toString'' = None)"
| "converts (JArr xs) = list_all converts xs"
| "converts v = True"

text \<open>\<^verbatim>\<open>xs.map(f)\<close> where \<open>f\<close> may throw: the first exception ends the traversal.\<close>

fun collect :: "(error + 'a) list \<Rightarrow> error + 'a list" where
  "collect [] = Inr []"
| "collect (Inl e # rs) = Inl e"
| "collect (Inr x # rs) = (case collect rs of Inl e \<Rightarrow> Inl e | Inr xs \<Rightarrow> Inr (x # xs))"

section \<open>The handler of \<^verbatim>\<open>analyze-results\<close>\<close>

subsection \<open>The score lines of the prompt\<close>

text \<open>
  An element of \<^verbatim>\<open>topicScoresArray\<close>.  Its counts are integers, written as integer literals
  in the body of the request.
\<close>

record topic =
  name :: string
  correct :: int
  weighted :: int
  weight :: int
  total :: int

text \<open>\<^verbatim>\<open>const score = Math.round((topic.correct/topic.total)*100)\<close>\<close>

definition score :: "topic \<Rightarrow> number" where
  "score t = Math_round (js_mul (js_div (num (correct t)) (num (total t))) (Fin 100))"

text \<open>The label after \<^verbatim>\<open>Interpretation:\<close> in the line of a dimension.\<close>

definition interpretationLabel :: "number \<Rightarrow> string" where
  "interpretationLabel s =
     (if js_ge s (Fin 90) then ''Excellent''
      else if js_ge s (Fin 80) then ''Very Good''
      else if js_ge s (Fin 70) then ''Good''
      else if js_ge s (Fin 60) then ''Satisfactory''
      else ''Needs Improvement'')"

subsection \<open>The calls of the language model\<close>

text \<open>
  What an attempt rejects with.  The handler reads \<^verbatim>\<open>modelError.message\<close> in its \<^verbatim>\<open>catch\<close>.
  The client and the timer reject with an \<^verbatim>\<open>Error\<close>, whose message is a string; of \<^verbatim>\<open>null\<close>
  and \<^verbatim>\<open>undefined\<close> the read throws; a value of any other kind has no message, and neither
  has an object without that property.
\<close>

datatype thrown = ErrorMessage string | Nullish | NoMessage

text \<open>
  What \<^verbatim>\<open>openai.chat.completions.create\<close> has done when the 45 second timer of the attempt
  fires: resolved with a value, rejected with a value, or neither.  The client resolves
  with a completion, which is an object; the handler keeps the value in a variable of
  type \<^verbatim>\<open>any\<close> and tests it, so the value is a JSON value or \<^verbatim>\<open>undefined\<close> here.
\<close>

datatype reply = Resolves "json option" | Rejects thrown | Pending

text \<open>\<^verbatim>\<open>await Promise.race([modelPromise, timeoutPromise])\<close>: \<open>Inl\<close> is what is thrown.\<close>

fun race :: "reply \<Rightarrow> thrown + json option" where
  "race (Resolves completion) = Inr completion"
| "race (Rejects modelError) = Inl modelError"
| "race Pending = Inl (ErrorMessage ''Model timeout'')"

definition models :: "string list" where
  "models = [''sonar-pro'', ''sonar'']"

text \<open>
  The loop \<^verbatim>\<open>for (const model of models)\<close>.  The state is \<^verbatim>\<open>lastError\<close> and \<^verbatim>\<open>completion\<close>, which
  is \<^verbatim>\<open>null\<close> until an attempt resolves; the first component of the result lists the
  models that were called.  A resolved attempt ends the loop with \<^verbatim>\<open>break\<close>, whatever its
  value; a \<^verbatim>\<open>TypeError\<close> in the \<^verbatim>\<open>catch\<close> leaves the loop as an exception.
\<close>

fun tryModels ::
  "(string \<Rightarrow> reply) \<Rightarrow> string list \<Rightarrow> thrown option
     \<Rightarrow> string list \<times> (error + thrown option \<times> json option)"
where
  "tryModels call [] lastError = ([], Inr (lastError, Some JNull))"
| "tryModels call (model # rest) lastError =
     (case race (call model) of
        Inr completion \<Rightarrow> ([model], Inr (lastError, completion))
      | Inl Nullish \<Rightarrow> ([model], Inl TypeError)
      | Inl modelError \<Rightarrow>
          (case tryModels call rest (Some modelError) of
             (tried, r) \<Rightarrow> (model # tried, r)))"

text \<open>\<^verbatim>\<open>lastError?.message || 'Unknown error'\<close>\<close>

definition lastMessage :: "thrown option \<Rightarrow> string" where
  "lastMessage lastError =
     (case lastError of
        Some (ErrorMessage msg) \<Rightarrow> if msg = [] then ''Unknown error'' else msg
      | _ \<Rightarrow> ''Unknown error'')"

text \<open>The loop and the check \<^verbatim>\<open>if (!completion)\<close> after it.\<close>

definition callModels :: "(string \<Rightarrow> reply) \<Rightarrow> string list \<times> (error + json)" where
  "callModels call =
     (case tryModels call models None of
        (tried, Inl e) \<Rightarrow> (tried, Inl e)
      | (tried, Inr (lastError, completion)) \<Rightarrow>
          (tried,
           case completion of
             None \<Rightarrow> Inl (Error (''All models failed. Last error: '' @ lastMessage lastError))
           | Some c \<Rightarrow>
               if truthy (Some c) then Inr c
               else Inl (Error (''All models failed. Last error: '' @ lastMessage lastError))))"

subsection \<open>The JSON text of the reply\<close>

text \<open>
  \<^verbatim>\<open>generatedText.match(/\{[\s\S]*\}/)\<close> as the matcher runs it.  \<open>lastBrace cs\<close> is the
  longest prefix of \<open>cs\<close> that ends in a closing brace, which is what the greedy star and
  the brace after it match; \<open>jsonMatch\<close> tries the start positions from the left.
\<close>

fun lastBrace :: "string \<Rightarrow> string option" where
  "lastBrace [] = None"
| "lastBrace (c # cs) =
     (case lastBrace cs of
        Some m \<Rightarrow> Some (c # m)
      | None \<Rightarrow> if c = CHR ''}'' then Some [c] else None)"

fun jsonMatch :: "string \<Rightarrow> string option" where
  "jsonMatch [] = None"
| "jsonMatch (c # cs) =
     (if c = CHR ''{''
      then (case lastBrace cs of Some m \<Rightarrow> Some (c # m) | None \<Rightarrow> jsonMatch cs)
      else jsonMatch cs)"

text \<open>
  \<^verbatim>\<open>JSON.parse\<close> belongs to the runtime and is a parameter: \<open>Inl\<close> is the message of its
  \<^verbatim>\<open>SyntaxError\<close>.
\<close>

type_synonym parser = "string \<Rightarrow> string + json"

definition extractJson :: "parser \<Rightarrow> string \<Rightarrow> error + json" where
  "extractJson parse generatedText =
     (case jsonMatch generatedText of
        None \<Rightarrow> Inl (Error ''No JSON found in LLM response'')
      | Some m \<Rightarrow> (case parse m of Inl msg \<Rightarrow> Inl (SyntaxError msg) | Inr llmResult \<Rightarrow> Inr llmResult))"

subsection \<open>The required fields\<close>

definition missingField :: "string \<Rightarrow> error" where
  "missingField f = Error (''LLM response missing required field: '' @ f)"

definition validateFields :: "json \<Rightarrow> error + json" where
  "validateFields llmResult =
     (if llmResult = JNull then Inl TypeError
      else if \<not> truthy (getProp llmResult ''Student Name'') \<and> \<not> truthy (getProp llmResult ''studentName'')
      then Inl (missingField ''Student Name'')
      else if \<not> truthy (getProp llmResult ''Scores'') \<and> \<not> truthy (getProp llmResult ''scores'')
      then Inl (missingField ''Scores'')
      else if \<not> truthy (getProp llmResult ''Overall Readiness Index'')
      then Inl (missingField ''Overall Readiness Index'')
      else if \<not> truthy (getProp llmResult ''Readiness Level'')
      then Inl (missingField ''Readiness Level'')
      else if \<not> truthy (getProp llmResult ''Strengths'')
      then Inl (missingField ''Strengths'')
      else if \<not> truthy (getProp llmResult ''Gaps'')
      then Inl (missingField ''Gaps'')
      else if \<not> truthy (getProp llmResult ''Recommendations'')
      then Inl (missingField ''Recommendations'')
      else Inr llmResult)"

text \<open>From the text of the completion to the body of the response.\<close>

definition analyzeText :: "parser \<Rightarrow> string \<Rightarrow> error + json" where
  "analyzeText parse generatedText =
     (if generatedText = [] then Inl (Error ''Empty response from LLM'')
      else (case extractJson parse generatedText of
              Inl e \<Rightarrow> Inl e
            | Inr llmResult \<Rightarrow> validateFields llmResult))"

section \<open>The handler of \<^verbatim>\<open>generate-pdf\<close>\<close>

subsection \<open>The checked values\<close>

text \<open>\<^verbatim>\<open>if (!x) throw new Error(msg)\<close> and \<^verbatim>\<open>if (x === undefined) throw new Error(msg)\<close>\<close>

definition required :: "json option \<Rightarrow> string \<Rightarrow> error + json" where
  "required a msg =
     (case a of
        None \<Rightarrow> Inl (Error msg)
      | Some v \<Rightarrow> if truthy (Some v) then Inr v else Inl (Error msg))"

definition defined :: "json option \<Rightarrow> string \<Rightarrow> error + json" where
  "defined a msg = (case a of None \<Rightarrow> Inl (Error msg) | Some v \<Rightarrow> Inr v)"

definition andThen :: "error + 'a \<Rightarrow> ('a \<Rightarrow> error + 'b) \<Rightarrow> error + 'b" where
  "andThen r f = (case r of Inl e \<Rightarrow> Inl e | Inr x \<Rightarrow> f x)"

definition scoreKeys :: "string list" where
  "scoreKeys = [''Financial Planning'', ''Academic Readiness'', ''Career Alignment'',
                ''Personal & Cultural'', ''Practical Readiness'', ''Support System'']"

record reportValues =
  studentName :: json
  studentEmail :: json
  studentPhone :: json
  scores :: "json list"
  overallIndex :: json
  readinessLevel :: json
  strengths :: json
  gaps :: json
  recommendations :: json
  countryFit :: json

text \<open>
  The first part of \<^verbatim>\<open>generateHTMLContent\<close>: the constants it binds before its template and
  the checks it makes on them, in the order of the source.
\<close>

definition checkedValues :: "json \<Rightarrow> error + reportValues" where
  "checkedValues results =
     (if results = JNull then Inl TypeError
      else
        andThen (required (js_or (getProp results ''Student Name'') (getProp results ''studentName''))
                   ''Student Name is required'') (\<lambda>name'.
        andThen (required (js_or (js_or (getProp results ''scores'') (getProp results ''Scores''))
                             (getProp results ''Scores''))
                   ''Scores data is required'') (\<lambda>scoresRaw.
        andThen (defined (js_or (getProp results ''Overall Readiness Index'') (getProp results ''overallIndex''))
                   ''Overall Readiness Index is required'') (\<lambda>index.
        andThen (required (js_or (getProp results ''Readiness Level'') (getProp results ''readinessLevel''))
                   ''Readiness Level is required'') (\<lambda>level.
        andThen (required (getProp results ''Strengths'') ''Strengths analysis is required'') (\<lambda>str.
        andThen (required (getProp results ''Gaps'') ''Gaps analysis is required'') (\<lambda>gap.
        andThen (required (getProp results ''Recommendations'') ''Recommendations are required'') (\<lambda>recs.
          Inr \<lparr> studentName = name',
                studentEmail =
                  orElse (js_or (js_or (getProp results ''Student Email'') (getProp results ''studentEmail''))
                            (getProp results ''userEmail'')) (JStr []),
                studentPhone =
                  orElse (js_or (js_or (getProp results ''Student Phone'') (getProp results ''studentPhone''))
                            (getProp results ''userPhone'')) (JStr []),
                scores = map (\<lambda>k. nullish (getProp scoresRaw k) (JNum (Fin 0))) scoreKeys,
                overallIndex = index,
                readinessLevel = level,
                strengths = str,
                gaps = gap,
                recommendations = recs,
                countryFit = orElse (getProp results ''Country Fit (Top 3)'') (JArr []) \<rparr>))))))))"

subsection \<open>Bullet points\<close>

definition li :: "string \<Rightarrow> string" where
  \<open>li s = ''<li class="bullet-item">'' @ s @ ''</li>''\<close>

definition sentenceEnd :: "char \<Rightarrow> bool" where
  "sentenceEnd c = (c \<in> set ''.!?'')"

definition commaSemicolon :: "char \<Rightarrow> bool" where
  "commaSemicolon c = (c \<in> set '',;'')"

definition nonBlank :: "string \<Rightarrow> bool" where
  "nonBlank s = (length (trim s) > 0)"

text \<open>The points of a string: the \<^verbatim>\<open>sentences\<close> and \<^verbatim>\<open>points\<close> of the string branch.\<close>

definition points :: "string \<Rightarrow> string list" where
  "points text =
     (let sentences = filter nonBlank (split sentenceEnd text)
      in if length sentences > 1 then sentences
         else filter nonBlank (split commaSemicolon text))"

text \<open>An element of an array: \<^verbatim>\<open>item.trim()\<close> is a \<^verbatim>\<open>TypeError\<close> unless the item is a string.\<close>

definition trimItem :: "json \<Rightarrow> error + string" where
  "trimItem item = (case item of JStr s \<Rightarrow> Inr (trim s) | _ \<Rightarrow> Inl TypeError)"

definition formatToBulletPoints :: "json option \<Rightarrow> error + string" where
  "formatToBulletPoints text =
     (if \<not> truthy text then Inr (li ''Information not available'')
      else case text of
        Some (JArr items) \<Rightarrow>
          andThen (collect (map trimItem items)) (\<lambda>trimmed. Inr (concat (map li trimmed)))
      | Some (JStr s) \<Rightarrow>
          if s = ''No strengths identified'' \<or> s = ''No gaps identified''
             \<or> s = ''No recommendations provided''
          then Inr (li ''Information not available'')
          else Inr (concat (map (\<lambda>point. li (removeLeadingNumber (trim point))) (points s)))
      | _ \<Rightarrow> Inr (li ''Invalid input format''))"

text \<open>
  The entries of the list that \<^verbatim>\<open>formatToBulletPoints\<close> writes, one for each \<^verbatim>\<open><li>\<close>
  element, before they are wrapped and joined.
\<close>

definition bulletEntries :: "json option \<Rightarrow> error + string list" where
  "bulletEntries text =
     (if \<not> truthy text then Inr [''Information not available'']
      else case text of
        Some (JArr items) \<Rightarrow> collect (map trimItem items)
      | Some (JStr s) \<Rightarrow>
          if s = ''No strengths identified'' \<or> s = ''No gaps identified''
             \<or> s = ''No recommendations provided''
          then Inr [''Information not available'']
          else Inr (map (\<lambda>point. removeLeadingNumber (trim point)) (points s))
      | _ \<Rightarrow> Inr [''Invalid input format''])"

subsection \<open>Country suggestions\<close>

text \<open>
  \<^verbatim>\<open>typeof countryData === 'string' ? Math.round(100 - (index * 15)) : countryData.match || 100\<close>,
  the same expression in \<^verbatim>\<open>generateCountryMatrix\<close> and in \<^verbatim>\<open>generateCountryCard\<close>.  Reading a
  property of \<^verbatim>\<open>null\<close> throws.
\<close>

definition matchScore :: "json \<Rightarrow> nat \<Rightarrow> error + json" where
  "matchScore countryData index =
     (case countryData of
        JStr s \<Rightarrow> Inr (JNum (Math_round (js_sub (Fin 100) (js_mul (Fin (of_nat index)) (Fin 15)))))
      | JNull \<Rightarrow> Inl TypeError
      | _ \<Rightarrow> Inr (orElse (getProp countryData ''match'') (JNum (Fin 100))))"

record matrixItem =
  rank :: nat
  country :: "json option"
  matchPercent :: json
  description :: json

text \<open>
  An item of the matrix.  The country, the match score and the description are written
  into the markup, which converts them to strings; \<^verbatim>\<open>undefined\<close> is written as it is.
\<close>

definition countryMatrixItem :: "json \<Rightarrow> nat \<Rightarrow> error + matrixItem" where
  "countryMatrixItem countryData index =
     andThen (matchScore countryData index) (\<lambda>m.
       andThen (Inr \<lparr> rank = index + 1,
             country = (case countryData of JStr s \<Rightarrow> Some (JStr s) | _ \<Rightarrow> getProp countryData ''country''),
             matchPercent = m,
             description =
               (case countryData of
                  JStr s \<Rightarrow> JStr ''Well-suited destination for study abroad''
                | _ \<Rightarrow> orElse (getProp countryData ''reasoning'') (JStr ''Good study destination'')) \<rparr>)
         (\<lambda>item.
            if (case country item of None \<Rightarrow> True | Some c \<Rightarrow> converts c)
               \<and> converts (matchPercent item) \<and> converts (description item)
            then Inr item else Inl TypeError))"

text \<open>\<^verbatim>\<open>countries.map((countryData, index) => ...)\<close>: the items in place of their markup.\<close>

definition generateCountryMatrix :: "json list \<Rightarrow> error + matrixItem list" where
  "generateCountryMatrix countries =
     collect (map (\<lambda>(index, countryData). countryMatrixItem countryData index) (enumerate 0 countries))"

subsection \<open>The template\<close>

text \<open>
  \<^verbatim>\<open>x > 0\<close> for a property \<open>x\<close>.  What number a string, an array or an object is converted
  to belongs to the runtime and is a parameter.
\<close>

definition js_gt :: "number \<Rightarrow> number \<Rightarrow> bool" where
  "js_gt a b = (js_ge a b \<and> \<not> js_ge b a)"

definition ToNumber :: "(json \<Rightarrow> number) \<Rightarrow> json option \<Rightarrow> number" where
  "ToNumber toNumber v =
     (case v of
        None \<Rightarrow> NaN
      | Some JNull \<Rightarrow> Fin 0
      | Some (JBool b) \<Rightarrow> Fin (if b then 1 else 0)
      | Some (JNum n) \<Rightarrow> n
      | Some x \<Rightarrow> toNumber x)"

text \<open>
  \<^verbatim>\<open>countryFit.length > 0\<close>, the condition of the second page.  An array and a string have
  their length; an object has the property it was given, if any; a number and a boolean
  have none.
\<close>

definition hasEntries :: "(json \<Rightarrow> number) \<Rightarrow> json \<Rightarrow> error + bool" where
  "hasEntries toNumber fit =
     (case fit of
        JNull \<Rightarrow> Inl TypeError
      | JArr countries \<Rightarrow> Inr (countries \<noteq> [])
      | JStr s \<Rightarrow> Inr (s \<noteq> [])
      | JObj kvs \<Rightarrow>
          (case map_of kvs ''length'' of
             None \<Rightarrow> Inr False
           | Some x \<Rightarrow>
               if converts x then Inr (js_gt (ToNumber toNumber (Some x)) (Fin 0))
               else Inl TypeError)
      | _ \<Rightarrow> Inr False)"

record countryPage =
  strengthsItems :: string
  gapsItems :: string
  recommendationItems :: string
  countryMatrix :: "matrixItem list"

text \<open>
  The second page of the template, in the order in which its expressions are evaluated:
  the three lists, then \<^verbatim>\<open>generateCountryMatrix(countryFit)\<close>, whose \<^verbatim>\<open>countries.map\<close> is a method
  of arrays only.  The two charts before the lists write the scores that the first page
  has converted already, and the cards after the matrix read the same \<^verbatim>\<open>country\<close> and the
  same match score of the same entries: they throw nothing that has not been thrown.
\<close>

definition secondPage :: "(json \<Rightarrow> number) \<Rightarrow> reportValues \<Rightarrow> error + countryPage option" where
  "secondPage toNumber v =
     andThen (hasEntries toNumber (countryFit v)) (\<lambda>some.
       if \<not> some then Inr None
       else
         andThen (formatToBulletPoints (Some (strengths v))) (\<lambda>s.
         andThen (formatToBulletPoints (Some (gaps v))) (\<lambda>g.
         andThen (formatToBulletPoints (Some (recommendations v))) (\<lambda>r.
         andThen (case countryFit v of
                    JArr countries \<Rightarrow> generateCountryMatrix countries
                  | _ \<Rightarrow> Inl TypeError) (\<lambda>m.
           Inr (Some \<lparr> strengthsItems = s, gapsItems = g,
                        recommendationItems = r, countryMatrix = m \<rparr>))))))"

text \<open>
  The template.  Its first page writes the e-mail address, the telephone number, the
  index and the level as they are, and the six scores through \<^verbatim>\<open>Math.round\<close>; the name is
  not written.  Every exception of the template is a \<^verbatim>\<open>TypeError\<close>.
\<close>

definition template :: "(json \<Rightarrow> number) \<Rightarrow> reportValues \<Rightarrow> error + countryPage option" where
  "template toNumber v =
     (if list_all converts
           ([studentEmail v, studentPhone v, overallIndex v, readinessLevel v] @ scores v)
      then secondPage toNumber v
      else Inl TypeError)"

text \<open>
  \<^verbatim>\<open>generateHTMLContent\<close>: the checked values, which the first page shows, and the second
  page if there is one, in place of the markup that holds them.
\<close>

definition generateHTMLContent ::
  "(json \<Rightarrow> number) \<Rightarrow> json \<Rightarrow> error + reportValues \<times> countryPage option"
where
  "generateHTMLContent toNumber results =
     andThen (checkedValues results) (\<lambda>v.
     andThen (template toNumber v) (\<lambda>page. Inr (v, page)))"

subsection \<open>The name of the attachment\<close>

text \<open>
  \<^verbatim>\<open>(results['Student Name'] || results.studentName).replace(/\s+/g, '-').toLowerCase()\<close>
  between the fixed prefix and suffix of the file name; \<^verbatim>\<open>replace\<close> is a method of strings
  only.
\<close>

definition filename :: "json \<Rightarrow> error + string" where
  "filename results =
     (case js_or (getProp results ''Student Name'') (getProp results ''studentName'') of
        Some (JStr s) \<Rightarrow> Inr (''psychometric-report-'' @ toLowerCase (replaceSpaces s) @ ''.pdf'')
      | _ \<Rightarrow> Inl TypeError)"

section \<open>The required fields as a table\<close>

text \<open>
  The required fields of the reply in the order of their checks, each with the keys
  under which \<open>validateFields\<close> looks for it, and the first field of such a table that
  has a truthy value under none of its keys.
\<close>

definition acceptedKeys :: "(string \<times> string list) list" where
  "acceptedKeys =
     [(''Student Name'', [''Student Name'', ''studentName'']),
      (''Scores'', [''Scores'', ''scores'']),
      (''Overall Readiness Index'', [''Overall Readiness Index'']),
      (''Readiness Level'', [''Readiness Level'']),
      (''Strengths'', [''Strengths'']),
      (''Gaps'', [''Gaps'']),
      (''Recommendations'', [''Recommendations''])]"

fun firstMissing :: "json \<Rightarrow> (string \<times> string list) list \<Rightarrow> string option" where
  "firstMissing r [] = None"
| "firstMissing r ((f, ks) # rest) =
     (if list_ex (\<lambda>k. truthy (getProp r k)) ks then firstMissing r rest else Some f)"

section \<open>Properties of binary64 rounding\<close>

lemma two_powi_less_iff: "(2::rat) powi m < 2 powi n \<longleftrightarrow> m < n"
proof
  assume "(2::rat) powi m < 2 powi n"
  show "m < n"
  proof (rule ccontr)
    assume "\<not> m < n"
    then have "(2::rat) powi n \<le> 2 powi m"
      by (intro power_int_increasing) auto
    with \<open>(2::rat) powi m < 2 powi n\<close> show False by simp
  qed
next
  assume "m < n"
  then show "(2::rat) powi m < 2 powi n"
    by (intro power_int_strict_increasing) auto
qed

lemma two_powi_le_iff: "(2::rat) powi m \<le> 2 powi n \<longleftrightarrow> m \<le> n"
  using two_powi_less_iff [of n m] by (auto simp: not_less [symmetric])

lemma bitlen_powi:
  assumes "0 < x"
  shows "(2::rat) powi (bitlen x - 1) \<le> of_int x" and "of_int x < (2::rat) powi (bitlen x)"
proof -
  from assms have b: "1 \<le> bitlen x"
    using bitlen_eq_zero_iff [of x] bitlen_nonneg [of x] by linarith
  from bitlen_bounds [OF assms]
  have lo: "2 ^ nat (bitlen x - 1) \<le> x" and hi: "x < 2 ^ nat (bitlen x)" by blast+
  have "(of_int (2 ^ nat (bitlen x - 1)) :: rat) \<le> of_int x"
    using lo by (simp only: of_int_le_iff)
  then show "(2::rat) powi (bitlen x - 1) \<le> of_int x"
    using b by (simp add: power_int_def)
  have "(of_int x :: rat) < of_int (2 ^ nat (bitlen x))"
    using hi by (simp only: of_int_less_iff)
  then show "of_int x < (2::rat) powi (bitlen x)"
    using b by (simp add: power_int_def)
qed

lemma expo_bounds:
  assumes "0 < a"
  shows "2 powi (expo a) \<le> a \<and> a < 2 powi (expo a + 1)"
proof -
  obtain p q where pq: "quotient_of a = (p, q)" by (cases "quotient_of a")
  then have q: "0 < q" and a: "a = of_int p / of_int q"
    using quotient_of_denom_pos quotient_of_div by blast+
  with assms have p: "0 < p"
    by (simp add: zero_less_divide_iff)
  define d where "d = bitlen p - bitlen q"
  have "a < 2 powi (bitlen p) / 2 powi (bitlen q - 1)"
    unfolding a using bitlen_powi [OF p] bitlen_powi [OF q] q p
    by (intro frac_less) auto
  also have "\<dots> = 2 powi (bitlen p - (bitlen q - 1))"
    by (rule power_int_diff [symmetric]) simp
  also have "bitlen p - (bitlen q - 1) = d + 1"
    by (simp add: d_def)
  finally have hi: "a < 2 powi (d + 1)" .
  have "2 powi (bitlen p - 1) / 2 powi (bitlen q) \<le> a"
    unfolding a using bitlen_powi [OF p] bitlen_powi [OF q] q p
    by (intro frac_le) (auto simp: less_imp_le)
  moreover have "2 powi (bitlen p - 1) / 2 powi (bitlen q) = (2::rat) powi (bitlen p - 1 - bitlen q)"
    by (rule power_int_diff [symmetric]) simp
  moreover have "bitlen p - 1 - bitlen q = d - 1"
    by (simp add: d_def)
  ultimately have lo: "2 powi (d - 1) \<le> a" by simp
  have e: "expo a = (if 2 powi d \<le> a then d else d - 1)"
    by (simp add: expo_def pq d_def Let_def)
  show ?thesis
    using lo hi by (simp add: e)
qed

lemma expo_unique:
  assumes "2 powi e \<le> a" "a < 2 powi (e + 1)"
  shows "expo a = e"
proof -
  have "(0::rat) < 2 powi e" by simp
  with assms(1) have pos: "0 < a" by linarith
  from expo_bounds [OF pos] have 1: "2 powi (expo a) \<le> a" and 2: "a < 2 powi (expo a + 1)" by blast+
  from 1 assms(2) have "(2::rat) powi (expo a) < 2 powi (e + 1)" by simp
  then have "expo a < e + 1" by (simp only: two_powi_less_iff)
  moreover from assms(1) 2 have "(2::rat) powi e < 2 powi (expo a + 1)" by simp
  then have "e < expo a + 1" by (simp only: two_powi_less_iff)
  ultimately show ?thesis by simp
qed


lemma rne_of_int: "rne (of_int k) = k"
  by (simp add: rne_def)

lemma rne_cases: "rne x = \<lfloor>x\<rfloor> \<or> rne x = \<lfloor>x\<rfloor> + 1"
  by (simp add: rne_def Let_def)

lemma rne_mono:
  assumes "x \<le> y"
  shows "rne x \<le> rne y"
proof (cases "\<lfloor>x\<rfloor> = \<lfloor>y\<rfloor>")
  case True
  with assms have "x - of_int \<lfloor>x\<rfloor> \<le> y - of_int \<lfloor>y\<rfloor>" by simp
  with True show ?thesis
    by (auto simp: rne_def Let_def)
next
  case False
  with assms have "\<lfloor>x\<rfloor> + 1 \<le> \<lfloor>y\<rfloor>"
    using floor_mono [of x y] by linarith
  with rne_cases [of x] rne_cases [of y] show ?thesis by linarith
qed

lemma rne_error: "\<bar>of_int (rne x) - x\<bar> \<le> 1 / 2"
proof -
  have "of_int \<lfloor>x\<rfloor> \<le> x" "x < of_int \<lfloor>x\<rfloor> + 1" by linarith+
  then show ?thesis
    by (auto simp: rne_def Let_def abs_le_iff not_less)
qed

lemma ulp_pos: "0 < (2::rat) powi k"
  by simp

lemma round_mag_nonneg:
  assumes "0 < x"
  shows "0 \<le> round_mag x"
proof -
  define u where "u = (2::rat) powi (max (expo x) (- 1022) - 52)"
  have u: "0 < u" by (simp add: u_def)
  with assms have "0 \<le> x / u" by simp
  then have "rne 0 \<le> rne (x / u)" by (rule rne_mono)
  then have "0 \<le> rne (x / u)" using rne_of_int [of 0] by simp
  then show ?thesis
    using u by (simp add: round_mag_def Let_def u_def [symmetric])
qed

lemma round_mag_upper:
  assumes "0 < x"
  shows "round_mag x \<le> 2 powi (max (expo x) (- 1022) + 1)"
proof -
  define E where "E = max (expo x) (- 1022)"
  define u where "u = (2::rat) powi (E - 52)"
  have u: "0 < u" by (simp add: u_def)
  have "x < 2 powi (expo x + 1)" using expo_bounds [OF assms] by blast
  also have "\<dots> \<le> 2 powi (E + 1)" by (simp add: two_powi_le_iff E_def)
  finally have "x / u < 2 powi (E + 1) / u" using u by (simp add: divide_strict_right_mono)
  also have "2 powi (E + 1) / u = 2 powi (E + 1 - (E - 52))"
    unfolding u_def by (rule power_int_diff [symmetric]) simp
  also have "E + 1 - (E - 52) = 53" by simp
  finally have "x / u \<le> of_int (2 ^ 53)" by simp
  then have "rne (x / u) \<le> rne (of_int (2 ^ 53))" by (rule rne_mono)
  then have "rne (x / u) \<le> 2 ^ 53" by (simp only: rne_of_int)
  then have "(of_int (rne (x / u)) :: rat) \<le> of_int (2 ^ 53)" by (simp only: of_int_le_iff)
  then have "of_int (rne (x / u)) * u \<le> 2 powi 53 * u" using u by simp
  also have "2 powi 53 * u = 2 powi (53 + (E - 52))"
    unfolding u_def by (rule power_int_add [symmetric]) simp
  also have "53 + (E - 52) = E + 1" by simp
  finally show ?thesis
    by (simp add: round_mag_def Let_def E_def [symmetric] u_def [symmetric])
qed

lemma round_mag_lower:
  assumes "0 < x" "- 1022 \<le> expo x"
  shows "2 powi (expo x) \<le> round_mag x"
proof -
  define u where "u = (2::rat) powi (expo x - 52)"
  have u: "0 < u" by (simp add: u_def)
  have E: "max (expo x) (- 1022) = expo x" using assms(2) by simp
  have "2 powi (expo x) \<le> x" using expo_bounds [OF assms(1)] by blast
  then have "2 powi (expo x) / u \<le> x / u" using u by (simp add: divide_right_mono)
  moreover have "2 powi (expo x) / u = 2 powi (expo x - (expo x - 52))"
    unfolding u_def by (rule power_int_diff [symmetric]) simp
  moreover have "expo x - (expo x - 52) = 52" by simp
  ultimately have "of_int (2 ^ 52) \<le> x / u" by simp
  then have "rne (of_int (2 ^ 52)) \<le> rne (x / u)" by (rule rne_mono)
  then have "2 ^ 52 \<le> rne (x / u)" by (simp only: rne_of_int)
  then have "(of_int (2 ^ 52) :: rat) \<le> of_int (rne (x / u))" by (simp only: of_int_le_iff)
  then have "2 powi 52 * u \<le> of_int (rne (x / u)) * u" using u by simp
  moreover have "2 powi 52 * u = 2 powi (52 + (expo x - 52))"
    unfolding u_def by (rule power_int_add [symmetric]) simp
  moreover have "52 + (expo x - 52) = expo x" by simp
  ultimately show ?thesis
    by (simp add: round_mag_def Let_def E u_def [symmetric])
qed

lemma expo_mono:
  assumes "0 < x" "x \<le> y"
  shows "expo x \<le> expo y"
proof -
  from assms have y: "0 < y" by simp
  have "2 powi (expo x) \<le> x" using expo_bounds [OF assms(1)] by blast
  also note assms(2)
  also have "y < 2 powi (expo y + 1)" using expo_bounds [OF y] by blast
  finally have "expo x < expo y + 1" by (simp only: two_powi_less_iff)
  then show ?thesis by simp
qed

lemma round_mag_mono:
  assumes "0 < x" "x \<le> y"
  shows "round_mag x \<le> round_mag y"
proof -
  from assms have y: "0 < y" by simp
  define Ex where "Ex = max (expo x) (- 1022)"
  define Ey where "Ey = max (expo y) (- 1022)"
  have le: "Ex \<le> Ey" using expo_mono [OF assms] by (simp add: Ex_def Ey_def)
  show ?thesis
  proof (cases "Ex = Ey")
    case True
    define u where "u = (2::rat) powi (Ex - 52)"
    have u: "0 < u" by (simp add: u_def)
    from assms(2) u have "x / u \<le> y / u" by (simp add: divide_right_mono)
    then have "rne (x / u) \<le> rne (y / u)" by (rule rne_mono)
    then have "(of_int (rne (x / u)) :: rat) \<le> of_int (rne (y / u))" by (simp only: of_int_le_iff)
    then have "of_int (rne (x / u)) * u \<le> of_int (rne (y / u)) * u" using u by simp
    then show ?thesis
      by (simp add: round_mag_def Let_def Ex_def [symmetric] Ey_def [symmetric] True [symmetric] u_def [symmetric])
  next
    case False
    with le have lt: "Ex + 1 \<le> Ey" by simp
    then have ey: "- 1022 \<le> expo y" "Ey = expo y" by (auto simp: Ex_def Ey_def)
    have "round_mag x \<le> 2 powi (Ex + 1)"
      using round_mag_upper [OF assms(1)] by (simp add: Ex_def)
    also have "\<dots> \<le> 2 powi Ey" using lt by (simp only: two_powi_le_iff)
    also have "\<dots> \<le> round_mag y" using round_mag_lower [OF y ey(1)] by (simp add: ey(2))
    finally show ?thesis .
  qed
qed


lemma round_mag_int:
  assumes "0 < n" "n \<le> 2 ^ 53"
  shows "round_mag (of_int n) = of_int n"
proof -
  define e where "e = expo (of_int n)"
  have pos: "(0::rat) < of_int n" using assms(1) by simp
  have lo: "2 powi e \<le> (of_int n :: rat)" and hi: "(of_int n :: rat) < 2 powi (e + 1)"
    using expo_bounds [OF pos] by (simp_all add: e_def)
  have "(1::rat) \<le> of_int n" using assms(1) by (simp add: Ints_nonzero_abs_ge1)
  with hi have "(2::rat) powi 0 < 2 powi (e + 1)" by simp
  then have "0 < e + 1" by (simp only: two_powi_less_iff)
  then have e0: "0 \<le> e" by simp
  have "(of_int n :: rat) \<le> of_int (2 ^ 53)" using assms(2) by (simp only: of_int_le_iff)
  with lo have "(2::rat) powi e \<le> 2 powi 53" by simp
  then have e53: "e \<le> 53" by (simp only: two_powi_le_iff)
  have E: "max e (- 1022) = e" using e0 by simp
  have "\<exists>m. (of_int n :: rat) / 2 powi (e - 52) = of_int m"
  proof (cases "e = 53")
    case True
    from lo True have "(of_int (2 ^ 53) :: rat) \<le> of_int n" by simp
    then have "2 ^ 53 \<le> n" by (simp only: of_int_le_iff)
    with assms(2) have n: "n = 2 ^ 53" by simp
    have "(of_int n :: rat) / 2 powi (e - 52) = of_int (2 ^ 52)"
      by (simp add: n True)
    then show ?thesis ..
  next
    case False
    with e53 have k: "0 \<le> 52 - e" by simp
    have "(of_int n :: rat) / 2 powi (e - 52) = of_int n * 2 powi (52 - e)"
      using power_int_minus [of "2::rat" "52 - e"] by (simp add: field_simps)
    also have "\<dots> = of_int (n * 2 ^ nat (52 - e))" using k by (simp add: power_int_def)
    finally show ?thesis ..
  qed
  then obtain m where q: "(of_int n :: rat) / 2 powi (e - 52) = of_int m" ..
  have "round_mag (of_int n) = of_int m * 2 powi (e - 52)"
    by (simp add: round_mag_def Let_def e_def [symmetric] E q rne_of_int)
  also have "\<dots> = of_int n" using q by (simp add: field_simps)
  finally show ?thesis .
qed

lemma round_double_int:
  assumes "\<bar>n\<bar> \<le> 2 ^ 53"
  shows "round_double (of_int n) = Fin (of_int n)"
proof (cases "n = 0")
  case True
  then show ?thesis by (simp add: round_double_def)
next
  case False
  then have a: "0 < \<bar>n\<bar>" by simp
  have r: "round_mag \<bar>of_int n\<bar> = of_int \<bar>n\<bar>"
    using round_mag_int [OF a assms] by simp
  have "(of_int \<bar>n\<bar> :: rat) \<le> of_int (2 ^ 53)" using assms by (simp only: of_int_le_iff)
  also have "\<dots> < 2 powi 1024" by simp
  finally have "\<not> 2 powi 1024 \<le> (of_int \<bar>n\<bar> :: rat)" by simp
  then show ?thesis
    using False by (auto simp: round_double_def r Let_def simp del: of_int_abs)
qed

lemma expo_two_powi: "expo (2 powi k) = k"
  by (rule expo_unique) (simp_all add: two_powi_less_iff)

text \<open>
  The test for overflow by the exponent of the rounded magnitude, for evaluation: the
  power \<open>2 powi 1024\<close> is not computed.
\<close>

lemma round_double_code [code]:
  "round_double x =
     (if x = 0 then Fin 0
      else let r = round_mag \<bar>x\<bar>
           in if 0 < r \<and> 1024 \<le> expo r then (if 0 < x then PosInf else NegInf)
              else Fin (if 0 < x then r else - r))"
proof -
  have "2 powi 1024 \<le> r \<longleftrightarrow> 0 < r \<and> 1024 \<le> expo r" for r :: rat
  proof
    assume a: "2 powi 1024 \<le> r"
    have "(0::rat) < 2 powi 1024" by (rule ulp_pos)
    with a have r: "0 < r" by linarith
    have "expo (2 powi 1024) \<le> expo r" using a by (intro expo_mono) (rule ulp_pos)
    then have "1024 \<le> expo r" by (simp only: expo_two_powi)
    with r show "0 < r \<and> 1024 \<le> expo r" by simp
  next
    assume a: "0 < r \<and> 1024 \<le> expo r"
    then have "(2::rat) powi 1024 \<le> 2 powi (expo r)" by (simp only: two_powi_le_iff)
    also have "\<dots> \<le> r" using expo_bounds [of r] a by blast
    finally show "2 powi 1024 \<le> r" .
  qed
  then show ?thesis by (simp only: round_double_def)
qed

lemma round_mag_error:
  assumes "0 < x" "- 1022 \<le> expo x"
  shows "\<bar>round_mag x - x\<bar> \<le> x / 2 ^ 53"
proof -
  define u where "u = (2::rat) powi (expo x - 52)"
  have u: "0 < u" by (simp add: u_def)
  have E: "max (expo x) (- 1022) = expo x" using assms(2) by simp
  have "\<bar>of_int (rne (x / u)) - x / u\<bar> * u \<le> 1 / 2 * u"
    using rne_error [of "x / u"] u by (intro mult_right_mono) auto
  moreover have "\<bar>of_int (rne (x / u)) - x / u\<bar> * u = \<bar>of_int (rne (x / u)) * u - x\<bar>"
    using u by (simp add: abs_mult [symmetric] left_diff_distrib abs_mult_pos)
  ultimately have "\<bar>round_mag x - x\<bar> \<le> u / 2"
    by (simp add: round_mag_def Let_def E u_def [symmetric])
  also have "u / 2 = 2 powi (expo x - 52) / 2 powi 1" by (simp add: u_def)
  also have "\<dots> = 2 powi (expo x - 52 - 1)" by (rule power_int_diff [symmetric]) simp
  also have "expo x - 52 - 1 = expo x - 53" by simp
  also have "(2::rat) powi (expo x - 53) = 2 powi (expo x) / 2 powi 53"
    by (rule power_int_diff) simp
  also have "\<dots> \<le> x / 2 powi 53"
    using expo_bounds [OF assms(1)] by (intro divide_right_mono) auto
  finally show ?thesis by simp
qed

lemma round_double_bounded:
  assumes "0 < x" "x \<le> of_int n" "n \<le> 2 ^ 53"
  shows "round_double x = Fin (round_mag x) \<and> 0 \<le> round_mag x \<and> round_mag x \<le> of_int n"
proof -
  from assms(1,2) have "(0::rat) < of_int n" by linarith
  then have n: "0 < n" by simp
  have "round_mag x \<le> round_mag (of_int n)" using assms(1,2) by (rule round_mag_mono)
  then have le: "round_mag x \<le> of_int n" using round_mag_int [OF n assms(3)] by simp
  have "(of_int n :: rat) \<le> of_int (2 ^ 53)" using assms(3) by (simp only: of_int_le_iff)
  also have "\<dots> < 2 powi 1024" by simp
  finally have "\<not> 2 powi 1024 \<le> round_mag x" using le by simp
  then show ?thesis
    using assms(1) le round_mag_nonneg [OF assms(1)] by (simp add: round_double_def Let_def)
qed

lemma Math_round_error: "\<bar>of_int \<lfloor>x + 1 / 2\<rfloor> - x\<bar> \<le> 1 / (2::rat)"
proof -
  have "of_int \<lfloor>x + 1 / 2\<rfloor> \<le> x + 1 / 2" "x + 1 / 2 < of_int \<lfloor>x + 1 / 2\<rfloor> + 1" by linarith+
  then show ?thesis by (intro abs_leI) linarith+
qed

lemma floor_half: "\<lfloor>(1::rat) / 2\<rfloor> = 0"
  by (rule floor_unique) simp_all

section \<open>Properties of the score lines\<close>

text \<open>
  C1.  The handler computes no tier from an index.  The one ladder it executes labels the
  score of a single dimension for the prompt, and it has five labels with steps at 60,
  70, 80 and 90: every score below 60 is \<^verbatim>\<open>Needs Improvement\<close>.  The index and the level of
  the report are asked of the language model, and the reply is accepted with whatever
  truthy level it carries: the validation compares the level with nothing.
\<close>

theorem interpretationLabel_ladder:
  "(90 \<le> x \<longrightarrow> interpretationLabel (Fin x) = ''Excellent'')
   \<and> (80 \<le> x \<and> x < 90 \<longrightarrow> interpretationLabel (Fin x) = ''Very Good'')
   \<and> (70 \<le> x \<and> x < 80 \<longrightarrow> interpretationLabel (Fin x) = ''Good'')
   \<and> (60 \<le> x \<and> x < 70 \<longrightarrow> interpretationLabel (Fin x) = ''Satisfactory'')
   \<and> (x < 60 \<longrightarrow> interpretationLabel (Fin x) = ''Needs Improvement'')
   \<and> (truthy (js_or (map_of kvs ''Student Name'') (map_of kvs ''studentName''))
        \<and> truthy (js_or (map_of kvs ''Scores'') (map_of kvs ''scores''))
        \<and> truthy (map_of kvs ''Overall Readiness Index'')
        \<and> truthy (map_of kvs ''Readiness Level'')
        \<and> truthy (map_of kvs ''Strengths'') \<and> truthy (map_of kvs ''Gaps'')
        \<and> truthy (map_of kvs ''Recommendations'')
      \<longrightarrow> validateFields (JObj kvs) = Inr (JObj kvs))"
  by (auto simp: interpretationLabel_def validateFields_def js_or_def split: if_splits)

theorem interpretationLabel_ladder_witness:
  "interpretationLabel (Fin 100) = ''Excellent'' \<and> interpretationLabel (Fin 90) = ''Excellent''
   \<and> interpretationLabel (Fin 80) = ''Very Good'' \<and> interpretationLabel (Fin 70) = ''Good''
   \<and> interpretationLabel (Fin 60) = ''Satisfactory''
   \<and> interpretationLabel (Fin 50) = ''Needs Improvement''
   \<and> interpretationLabel (Fin 0) = ''Needs Improvement''
   \<and> validateFields
         (JObj [(''Student Name'', JStr ''Asha Rao''),
                (''Scores'', JObj [(''Financial Planning'', JNum (Fin 40))]),
                (''Overall Readiness Index'', JNum (Fin 40)),
                (''Readiness Level'', JStr ''Low''),
                (''Strengths'', JStr ''Clear goals''),
                (''Gaps'', JStr ''Funding''),
                (''Recommendations'', JStr ''Apply for scholarships'')])
       = Inr (JObj [(''Student Name'', JStr ''Asha Rao''),
                (''Scores'', JObj [(''Financial Planning'', JNum (Fin 40))]),
                (''Overall Readiness Index'', JNum (Fin 40)),
                (''Readiness Level'', JStr ''Low''),
                (''Strengths'', JStr ''Clear goals''),
                (''Gaps'', JStr ''Funding''),
                (''Recommendations'', JStr ''Apply for scholarships'')])"
  using interpretationLabel_ladder [of 100] interpretationLabel_ladder [of 90]
        interpretationLabel_ladder [of 80] interpretationLabel_ladder [of 70]
        interpretationLabel_ladder [of 60] interpretationLabel_ladder [of 50]
        interpretationLabel_ladder
          [of 0 "[(''Student Name'', JStr ''Asha Rao''),
                (''Scores'', JObj [(''Financial Planning'', JNum (Fin 40))]),
                (''Overall Readiness Index'', JNum (Fin 40)),
                (''Readiness Level'', JStr ''Low''),
                (''Strengths'', JStr ''Clear goals''),
                (''Gaps'', JStr ''Funding''),
                (''Recommendations'', JStr ''Apply for scholarships'')]"]
  by (simp add: js_or_def)

text \<open>
  A score of 40 gets the label of a score of 55, and a reply with the index 40 and the
  level \<^verbatim>\<open>Excellent\<close> is accepted as it is.
\<close>

theorem interpretationLabel_below_50:
  "interpretationLabel (Fin 40) = ''Needs Improvement''
   \<and> interpretationLabel (Fin 40) = interpretationLabel (Fin 55)
   \<and> validateFields
         (JObj [(''Student Name'', JStr ''Asha Rao''),
                (''Scores'', JObj [(''Financial Planning'', JNum (Fin 40))]),
                (''Overall Readiness Index'', JNum (Fin 40)),
                (''Readiness Level'', JStr ''Excellent''),
                (''Strengths'', JStr ''Clear goals''),
                (''Gaps'', JStr ''Funding''),
                (''Recommendations'', JStr ''Apply for scholarships'')])
       = Inr (JObj [(''Student Name'', JStr ''Asha Rao''),
                (''Scores'', JObj [(''Financial Planning'', JNum (Fin 40))]),
                (''Overall Readiness Index'', JNum (Fin 40)),
                (''Readiness Level'', JStr ''Excellent''),
                (''Strengths'', JStr ''Clear goals''),
                (''Gaps'', JStr ''Funding''),
                (''Recommendations'', JStr ''Apply for scholarships'')])"
  by (simp add: interpretationLabel_def validateFields_def)

text \<open>
  C5.  The score of a topic is a number for every pair of counts, invalid ones included;
  nothing is rejected.  For counts with \<open>0 \<le> correct \<le> total\<close> and \<open>0 < total\<close>, both
  exactly representable (at most \<open>2 ^ 53\<close>), the product \<^verbatim>\<open>(correct / total) * 100\<close> that the
  handler computes is a number \<open>p\<close> within \<open>200 / 2 ^ 53\<close> of \<open>100 * correct / total\<close>, and the
  score is \<open>p\<close> rounded half up, \<open>\<lfloor>p + 1 / 2\<rfloor>\<close>, an integer from 0 to 100.  So the score is
  \<open>100 * correct / total\<close> rounded half up unless that value lies within \<open>200 / 2 ^ 53\<close> of
  a tie.
\<close>

theorem score_in_range:
  assumes c: "0 \<le> correct t" "correct t \<le> total t" and tt: "0 < total t" "total t \<le> 2 ^ 53"
  shows "\<exists>p. js_mul (js_div (num (correct t)) (num (total t))) (Fin 100) = Fin p
           \<and> \<bar>p - 100 * of_int (correct t) / of_int (total t)\<bar> \<le> 200 / 2 ^ 53
           \<and> score t = Fin (of_int \<lfloor>p + 1 / 2\<rfloor>)
           \<and> 0 \<le> \<lfloor>p + 1 / 2\<rfloor> \<and> \<lfloor>p + 1 / 2\<rfloor> \<le> 100
           \<and> ((\<forall>k::int. 200 / 2 ^ 53
                   < \<bar>100 * of_int (correct t) / of_int (total t) - (of_int k + 1 / 2 :: rat)\<bar>)
                \<longrightarrow> score t
                    = Fin (of_int \<lfloor>100 * of_int (correct t) / of_int (total t) + 1 / 2 :: rat\<rfloor>))"
proof -
  define x :: rat where "x = 100 * of_int (correct t) / of_int (total t)"
  have "\<exists>p. js_mul (js_div (num (correct t)) (num (total t))) (Fin 100) = Fin p
           \<and> \<bar>p - x\<bar> \<le> 200 / 2 ^ 53 \<and> 0 \<le> p \<and> p \<le> 100"
  proof (cases "correct t = 0")
    case True
    have nt: "num (total t) = Fin (of_int (total t))"
      unfolding num_def using tt by (intro round_double_int) simp
    have nc: "num (correct t) = Fin 0"
      by (simp add: True num_def round_double_def)
    have "js_mul (js_div (num (correct t)) (num (total t))) (Fin 100) = Fin 0"
      using tt(1) by (simp add: nt nc round_double_def)
    then show ?thesis using True by (intro exI [of _ 0]) (simp add: x_def)
  next
    case False
    define q :: rat where "q = of_int (correct t) / of_int (total t)"
    have cpos: "0 < correct t" using c(1) False by simp
    have nc: "num (correct t) = Fin (of_int (correct t))"
      unfolding num_def using c tt by (intro round_double_int) simp
    have nt: "num (total t) = Fin (of_int (total t))"
      unfolding num_def using tt by (intro round_double_int) simp
    have q0: "0 < q" using cpos tt(1) by (simp add: q_def)
    have q1: "q \<le> of_int 1" using c(2) tt(1) by (simp add: q_def)
    have "1 / of_int (2 ^ 53) \<le> 1 / (of_int (total t) :: rat)"
      using tt by (intro divide_left_mono) (simp_all only: of_int_le_iff of_int_0_less_iff, simp_all)
    also have "\<dots> \<le> q"
      unfolding q_def using cpos tt(1) by (intro divide_right_mono) simp_all
    finally have "2 powi (- 53) \<le> q" by (simp add: power_int_minus field_simps)
    then have "expo (2 powi (- 53)) \<le> expo q" by (intro expo_mono) simp_all
    then have eq: "- 53 \<le> expo q" by (simp only: expo_two_powi)
    define r1 where "r1 = round_mag q"
    have d: "round_double q = Fin r1" and r1: "r1 \<le> 1"
      using round_double_bounded [OF q0 q1] by (simp_all add: r1_def)
    have "2 powi (expo q) \<le> r1" unfolding r1_def using q0 eq by (intro round_mag_lower) simp_all
    then have r1lo: "2 powi (- 53) \<le> r1"
      using eq two_powi_le_iff [of "- 53" "expo q"] by linarith
    then have r1pos: "0 < r1" using ulp_pos [of "- 53"] by linarith
    have e1: "\<bar>r1 - q\<bar> \<le> q / 2 ^ 53"
      unfolding r1_def using q0 eq by (intro round_mag_error) simp_all
    define y where "y = r1 * 100"
    have y0: "0 < y" using r1pos by (simp add: y_def)
    have y100: "y \<le> of_int 100" using r1 by (simp add: y_def)
    have "2 powi (- 53) \<le> y" using r1lo r1pos by (simp add: y_def)
    then have "expo (2 powi (- 53)) \<le> expo y" by (intro expo_mono) simp_all
    then have "- 53 \<le> expo y" by (simp only: expo_two_powi)
    then have ey: "- 1022 \<le> expo y" by simp
    define p where "p = round_mag y"
    have m: "round_double y = Fin p" and p: "0 \<le> p" "p \<le> 100"
      using round_double_bounded [OF y0 y100] by (simp_all add: p_def)
    have e2: "\<bar>p - y\<bar> \<le> y / 2 ^ 53"
      unfolding p_def using y0 ey by (rule round_mag_error)
    have "js_div (num (correct t)) (num (total t)) = Fin r1"
      using tt(1) d by (simp add: nc nt q_def)
    then have prod: "js_mul (js_div (num (correct t)) (num (total t))) (Fin 100) = Fin p"
      using m by (simp add: y_def)
    have q53: "q / 2 ^ 53 \<le> 1 / 2 ^ 53" using q1 by (simp add: divide_right_mono)
    have xq: "x = 100 * q" by (simp add: x_def q_def)
    have a: "\<bar>y - x\<bar> \<le> 100 / 2 ^ 53" unfolding y_def xq using e1 q53 by linarith
    have "y / 2 ^ 53 \<le> 100 / 2 ^ 53" using y100 by simp
    with e2 have b: "\<bar>p - y\<bar> \<le> 100 / 2 ^ 53" by linarith
    have "\<bar>p - x\<bar> \<le> 200 / 2 ^ 53" using a b by linarith
    then show ?thesis using prod p by blast
  qed
  then obtain p where prod: "js_mul (js_div (num (correct t)) (num (total t))) (Fin 100) = Fin p"
    and err: "\<bar>p - x\<bar> \<le> 200 / 2 ^ 53" and p0: "0 \<le> p" and p100: "p \<le> 100"
    by blast
  have s: "score t = Fin (of_int \<lfloor>p + 1 / 2\<rfloor>)"
    by (simp add: score_def prod)
  have n0: "0 \<le> \<lfloor>p + 1 / 2\<rfloor>" using p0 by simp
  have "p + 1 / 2 < 101" using p100 by simp
  then have "\<lfloor>p + 1 / 2\<rfloor> < 101" by (simp add: floor_less_iff)
  then have n100: "\<lfloor>p + 1 / 2\<rfloor> \<le> 100" by simp
  have away: "score t = Fin (of_int \<lfloor>x + 1 / 2\<rfloor>)"
    if far: "\<forall>k::int. 200 / 2 ^ 53 < \<bar>x - (of_int k + 1 / 2)\<bar>"
  proof -
    define n where "n = \<lfloor>x + 1 / 2\<rfloor>"
    define e :: rat where "e = 200 / 2 ^ 53"
    have lo: "of_int n \<le> x + 1 / 2" and hi: "x + 1 / 2 < of_int n + 1"
      unfolding n_def by linarith+
    have pe: "\<bar>p - x\<bar> \<le> e" using err by (simp add: e_def)
    from far have "e < \<bar>x - (of_int (n - 1) + 1 / 2)\<bar>" unfolding e_def by blast
    then have f1: "e < \<bar>x - (of_int n - 1 / 2)\<bar>" by simp
    from far have f2: "e < \<bar>x - (of_int n + 1 / 2)\<bar>" unfolding e_def by blast
    have "of_int n \<le> p + 1 / 2" using lo f1 pe by linarith
    moreover have "p + 1 / 2 < of_int n + 1" using hi f2 pe by linarith
    ultimately have "\<lfloor>p + 1 / 2\<rfloor> = n" by (intro floor_unique) simp_all
    then show ?thesis using s by (simp add: n_def)
  qed
  show ?thesis
    using prod err s n0 n100 away unfolding x_def by blast
qed

text \<open>
  Three correct answers out of eight are 37.5 percent, computed exactly: the score is 38,
  the tie rounded up.  Two out of three are far from a tie: the score is 67.
\<close>

theorem score_in_range_witness:
  "score \<lparr>name = ''Support System'', correct = 3, weighted = 0, weight = 10, total = 8\<rparr> = Fin 38
   \<and> score \<lparr>name = ''Support System'', correct = 2, weighted = 0, weight = 10, total = 3\<rparr> = Fin 67"
proof -
  let ?a = "\<lparr>name = ''Support System'', correct = 3, weighted = 0, weight = 10, total = 8\<rparr>"
  let ?b = "\<lparr>name = ''Support System'', correct = 2, weighted = 0, weight = 10, total = 3\<rparr>"
  have pa: "js_mul (js_div (num (correct ?a)) (num (total ?a))) (Fin 100) = Fin (75 / 2)"
    by code_simp
  from score_in_range [of ?a] obtain p
    where p1: "js_mul (js_div (num (correct ?a)) (num (total ?a))) (Fin 100) = Fin p"
      and p2: "score ?a = Fin (of_int \<lfloor>p + 1 / 2\<rfloor>)"
    by auto
  from p1 pa have "Fin p = Fin (75 / 2)" by (simp only:)
  then have pv: "p = 75 / 2" by (simp only: number.inject)
  have "\<lfloor>(75 / 2 :: rat) + 1 / 2\<rfloor> = 38" by (rule floor_unique) simp_all
  with p2 have a: "score ?a = Fin 38" unfolding pv by simp
  have far: "200 / 2 ^ 53 < \<bar>100 * of_int 2 / of_int 3 - (of_int k + 1 / 2 :: rat)\<bar>" for k :: int
  proof -
    have "1 \<le> \<bar>397 - 6 * k\<bar>" by presburger
    then have "(1 :: rat) \<le> of_int \<bar>397 - 6 * k\<bar>" by (simp only: of_int_1_le_iff)
    then have "(1 :: rat) \<le> \<bar>397 - 6 * of_int k\<bar>" by simp
    moreover have "\<bar>100 * of_int 2 / of_int 3 - (of_int k + 1 / 2 :: rat)\<bar> = \<bar>397 - 6 * of_int k\<bar> / 6"
      by (simp add: field_simps abs_divide) 
    ultimately have "1 / 6 \<le> \<bar>100 * of_int 2 / of_int 3 - (of_int k + 1 / 2 :: rat)\<bar>" by simp
    then show ?thesis by simp
  qed
  from score_in_range [of ?b] far
  have "score ?b = Fin (of_int \<lfloor>100 * of_int 2 / of_int 3 + 1 / 2 :: rat\<rfloor>)" by auto
  moreover have "\<lfloor>100 * of_int 2 / of_int 3 + 1 / 2 :: rat\<rfloor> = 67" by (rule floor_unique) simp_all
  ultimately have b: "score ?b = Fin 67" by simp
  from a b show ?thesis by simp
qed

text \<open>
  Six correct answers out of five give the score 120, a negative count a negative
  score, and a total of zero gives infinity.
\<close>

theorem score_accepts_invalid:
  "score \<lparr>name = ''Support System'', correct = 6, weighted = 0, weight = 10, total = 5\<rparr> = Fin 120
   \<and> score \<lparr>name = ''Support System'', correct = - 1, weighted = 0, weight = 10, total = 5\<rparr> = Fin (- 20)
   \<and> score \<lparr>name = ''Support System'', correct = 1, weighted = 0, weight = 10, total = 0\<rparr> = PosInf"
  by code_simp

text \<open>
  The product is rounded before \<^verbatim>\<open>Math.round\<close> sees it: 23 correct answers out of 40 are
  57.5 percent, the product computed is just below that, and the score is 57.
\<close>

lemma score_below_tie:
  "score \<lparr>name = ''Support System'', correct = 23, weighted = 0, weight = 10, total = 40\<rparr> = Fin 57"
  by code_simp

section \<open>Properties of the language-model calls\<close>

lemma tryModels_all_fail:
  "(\<forall>m \<in> set ms. \<exists>e. race (call m) = Inl e \<and> e \<noteq> Nullish) \<Longrightarrow>
   tryModels call ms le =
     (ms, Inr (if ms = [] then le else Some (projl (race (call (last ms)))), Some JNull))"
  by (induction ms arbitrary: le) (auto split: sum.splits thrown.splits)

text \<open>
  C9.  The primary model \<^verbatim>\<open>sonar-pro\<close> is called first.  When its attempt resolves with a
  completion, that is the result and \<^verbatim>\<open>sonar\<close> is not called.  When it fails, by its
  own 45 second timer or by a rejection, \<^verbatim>\<open>sonar\<close> is called, once, with a timer of its
  own, and a completion it resolves with is the result.  When that attempt fails as well,
  and only then, the handler throws \<^verbatim>\<open>All models failed\<close> with the message of the last
  failure, which is \<^verbatim>\<open>Model timeout\<close> for the timer.  The attempts are taken as the
  client makes them: a completion is an object, hence truthy, and what an attempt
  rejects with is not \<^verbatim>\<open>null\<close>, an \<^verbatim>\<open>Error\<close> with a message in the last attempt.
\<close>

theorem callModels_fallback:
  "(call ''sonar-pro'' = Resolves (Some c) \<and> truthy (Some c)
      \<longrightarrow> callModels call = ([''sonar-pro''], Inr c))
   \<and> ((call ''sonar-pro'' = Pending \<or> (\<exists>e. call ''sonar-pro'' = Rejects e \<and> e \<noteq> Nullish))
        \<and> call ''sonar'' = Resolves (Some c) \<and> truthy (Some c)
      \<longrightarrow> callModels call = ([''sonar-pro'', ''sonar''], Inr c))
   \<and> ((call ''sonar-pro'' = Pending \<or> (\<exists>e. call ''sonar-pro'' = Rejects e \<and> e \<noteq> Nullish))
        \<and> call ''sonar'' = Rejects (ErrorMessage e') \<and> e' \<noteq> []
      \<longrightarrow> callModels call
            = ([''sonar-pro'', ''sonar''], Inl (Error (''All models failed. Last error: '' @ e'))))
   \<and> ((call ''sonar-pro'' = Pending \<or> (\<exists>e. call ''sonar-pro'' = Rejects e \<and> e \<noteq> Nullish))
        \<and> call ''sonar'' = Pending
      \<longrightarrow> callModels call
            = ([''sonar-pro'', ''sonar''], Inl (Error ''All models failed. Last error: Model timeout'')))"
proof -
  have failed: "tryModels call models None
      = (case tryModels call [''sonar''] (Some e) of (tried, r) \<Rightarrow> (''sonar-pro'' # tried, r))"
    if "race (call ''sonar-pro'') = Inl e" and "e \<noteq> Nullish" for e
    using that by (cases e) (simp_all add: models_def)
  have primary: "\<exists>e. race (call ''sonar-pro'') = Inl e \<and> e \<noteq> Nullish"
    if "call ''sonar-pro'' = Pending \<or> (\<exists>e. call ''sonar-pro'' = Rejects e \<and> e \<noteq> Nullish)"
    using that by auto
  show ?thesis
  proof (intro conjI impI)
    assume "call ''sonar-pro'' = Resolves (Some c) \<and> truthy (Some c)"
    then show "callModels call = ([''sonar-pro''], Inr c)"
      by (simp add: callModels_def models_def)
  next
    assume h: "(call ''sonar-pro'' = Pending \<or> (\<exists>e. call ''sonar-pro'' = Rejects e \<and> e \<noteq> Nullish))
        \<and> call ''sonar'' = Resolves (Some c) \<and> truthy (Some c)"
    then obtain e where e: "race (call ''sonar-pro'') = Inl e" "e \<noteq> Nullish"
      using primary by blast
    show "callModels call = ([''sonar-pro'', ''sonar''], Inr c)"
      using h by (simp add: callModels_def failed [OF e])
  next
    assume h: "(call ''sonar-pro'' = Pending \<or> (\<exists>e. call ''sonar-pro'' = Rejects e \<and> e \<noteq> Nullish))
        \<and> call ''sonar'' = Rejects (ErrorMessage e') \<and> e' \<noteq> []"
    then obtain e where e: "race (call ''sonar-pro'') = Inl e" "e \<noteq> Nullish"
      using primary by blast
    show "callModels call
            = ([''sonar-pro'', ''sonar''], Inl (Error (''All models failed. Last error: '' @ e')))"
      using h by (simp add: callModels_def failed [OF e] lastMessage_def)
  next
    assume h: "(call ''sonar-pro'' = Pending \<or> (\<exists>e. call ''sonar-pro'' = Rejects e \<and> e \<noteq> Nullish))
        \<and> call ''sonar'' = Pending"
    then obtain e where e: "race (call ''sonar-pro'') = Inl e" "e \<noteq> Nullish"
      using primary by blast
    show "callModels call
            = ([''sonar-pro'', ''sonar''], Inl (Error ''All models failed. Last error: Model timeout''))"
      using h by (simp add: callModels_def failed [OF e] lastMessage_def)
  qed
qed

text \<open>
  The four courses of the two attempts: the primary model answers; it runs into its
  timer and the alternate answers; both are rejected; the primary is rejected and the
  alternate runs into its timer.
\<close>

theorem callModels_fallback_witness:
  "callModels (\<lambda>m. Resolves (Some (JObj [(''choices'', JArr [])])))
     = ([''sonar-pro''], Inr (JObj [(''choices'', JArr [])]))
   \<and> callModels (\<lambda>m. if m = ''sonar-pro'' then Pending else Resolves (Some (JObj [(''choices'', JArr [])])))
     = ([''sonar-pro'', ''sonar''], Inr (JObj [(''choices'', JArr [])]))
   \<and> callModels (\<lambda>m. if m = ''sonar-pro'' then Rejects (ErrorMessage ''Connection error.'')
                      else Rejects (ErrorMessage ''503 Service Unavailable''))
     = ([''sonar-pro'', ''sonar''],
        Inl (Error ''All models failed. Last error: 503 Service Unavailable''))
   \<and> callModels (\<lambda>m. if m = ''sonar-pro'' then Rejects (ErrorMessage ''Connection error.'') else Pending)
     = ([''sonar-pro'', ''sonar''], Inl (Error ''All models failed. Last error: Model timeout''))"
  using callModels_fallback
          [of "\<lambda>m. Resolves (Some (JObj [(''choices'', JArr [])]))" "JObj [(''choices'', JArr [])]"]
        callModels_fallback
          [of "\<lambda>m. if m = ''sonar-pro'' then Pending else Resolves (Some (JObj [(''choices'', JArr [])]))"
              "JObj [(''choices'', JArr [])]"]
        callModels_fallback
          [of "\<lambda>m. if m = ''sonar-pro'' then Rejects (ErrorMessage ''Connection error.'')
                    else Rejects (ErrorMessage ''503 Service Unavailable'')" _ "''503 Service Unavailable''"]
        callModels_fallback
          [of "\<lambda>m. if m = ''sonar-pro'' then Rejects (ErrorMessage ''Connection error.'') else Pending"]
  by simp

text \<open>
  Outside of that: an attempt that resolves with \<^verbatim>\<open>null\<close> ends the loop, and the check after
  the loop throws without an error to name; a rejection with \<^verbatim>\<open>null\<close> makes the \<^verbatim>\<open>catch\<close>
  itself throw, and the alternate is not called.
\<close>

lemma callModels_falsy_completion:
  "callModels (\<lambda>m. Resolves (Some JNull))
     = ([''sonar-pro''], Inl (Error ''All models failed. Last error: Unknown error''))"
  by (simp add: callModels_def models_def lastMessage_def)

lemma callModels_nullish_rejection:
  "callModels (\<lambda>m. Rejects Nullish) = ([''sonar-pro''], Inl TypeError)"
  by (simp add: callModels_def models_def)

text \<open>A failure without a message, or with an empty one, is reported as unknown.\<close>

lemma callModels_no_message:
  "callModels (\<lambda>m. Rejects NoMessage)
     = ([''sonar-pro'', ''sonar''], Inl (Error ''All models failed. Last error: Unknown error''))"
  by (simp add: callModels_def models_def lastMessage_def)

section \<open>Properties of the reply of the language model\<close>

lemma lastBrace_None: "lastBrace cs = None \<longleftrightarrow> CHR ''}'' \<notin> set cs"
  by (induction cs) (auto split: option.splits)

lemma lastBrace_Some:
  "lastBrace cs = Some m \<Longrightarrow> \<exists>body post. m = body @ ''}'' \<and> cs = m @ post \<and> CHR ''}'' \<notin> set post"
proof (induction cs arbitrary: m)
  case Nil
  then show ?case by simp
next
  case (Cons c cs)
  show ?case
  proof (cases "lastBrace cs")
    case None
    with Cons.prems have "c = CHR ''}''" "m = [c]" by (auto split: if_splits)
    moreover from None have "CHR ''}'' \<notin> set cs" by (simp add: lastBrace_None)
    ultimately show ?thesis by (intro exI [of _ "[]"] exI [of _ cs]) simp
  next
    case (Some m')
    with Cons.prems have m: "m = c # m'" by simp
    from Cons.IH [OF Some] obtain body post where
      "m' = body @ ''}''" "cs = m' @ post" "CHR ''}'' \<notin> set post" by blast
    then show ?thesis using m by (intro exI [of _ "c # body"] exI [of _ post]) simp
  qed
qed

lemma lastBrace_append:
  "CHR ''}'' \<notin> set post \<Longrightarrow> lastBrace (body @ CHR ''}'' # post) = Some (body @ ''}'')"
proof (induction body)
  case Nil
  then have "lastBrace post = None" by (simp add: lastBrace_None)
  then show ?case by simp
next
  case (Cons c body)
  then show ?case by simp
qed

lemma jsonMatch_None_no_open: "CHR ''{'' \<notin> set t \<Longrightarrow> jsonMatch t = None"
  by (induction t) auto

lemma jsonMatch_append:
  assumes "CHR ''{'' \<notin> set pre" "CHR ''}'' \<notin> set post"
  shows "jsonMatch (pre @ CHR ''{'' # body @ CHR ''}'' # post) = Some (CHR ''{'' # body @ ''}'')"
  using assms by (induction pre) (auto simp: lastBrace_append)

lemma jsonMatch_None:
  "jsonMatch t = None \<longleftrightarrow> \<not> (\<exists>pre body post. t = pre @ CHR ''{'' # body @ CHR ''}'' # post)"
proof
  assume n: "jsonMatch t = None"
  show "\<not> (\<exists>pre body post. t = pre @ CHR ''{'' # body @ CHR ''}'' # post)"
    using n
  proof (induction t)
    case Nil
    then show ?case by simp
  next
    case (Cons c cs)
    show ?case
    proof
      assume "\<exists>pre body post. c # cs = pre @ CHR ''{'' # body @ CHR ''}'' # post"
      then obtain pre body post where e: "c # cs = pre @ CHR ''{'' # body @ CHR ''}'' # post" by blast
      show False
      proof (cases pre)
        case Nil
        with e have "c = CHR ''{''" "cs = body @ CHR ''}'' # post" by simp_all
        then have "lastBrace cs \<noteq> None" by (simp add: lastBrace_None)
        with Cons.prems \<open>c = CHR ''{''\<close> show False by (auto split: option.splits)
      next
        case (Cons p pre')
        with e have "cs = pre' @ CHR ''{'' # body @ CHR ''}'' # post" by simp
        moreover from Cons.prems have "jsonMatch cs = None" by (auto split: option.splits if_splits)
        ultimately show False using Cons.IH by blast
      qed
    qed
  qed
next
  assume a: "\<not> (\<exists>pre body post. t = pre @ CHR ''{'' # body @ CHR ''}'' # post)"
  show "jsonMatch t = None"
  proof (rule ccontr)
    assume "jsonMatch t \<noteq> None"
    then obtain m where "jsonMatch t = Some m" by auto
    then have "\<exists>pre body post. t = pre @ CHR ''{'' # body @ CHR ''}'' # post"
    proof (induction t)
      case Nil
      then show ?case by simp
    next
      case (Cons c cs)
      show ?case
      proof (cases "c = CHR ''{'' \<and> lastBrace cs \<noteq> None")
        case True
        then obtain m' where "lastBrace cs = Some m'" by auto
        then obtain body post where "cs = (body @ ''}'') @ post" using lastBrace_Some by blast
        with True show ?thesis by (intro exI [of _ "[]"] exI [of _ body] exI [of _ post]) simp
      next
        case False
        with Cons.prems have "jsonMatch cs = Some m" by (auto split: option.splits if_splits)
        from Cons.IH [OF this] obtain pre body post where "cs = pre @ CHR ''{'' # body @ CHR ''}'' # post" by blast
        then show ?thesis by (intro exI [of _ "c # pre"] exI [of _ body] exI [of _ post]) simp
      qed
    qed
    with a show False by blast
  qed
qed

text \<open>
  C4.  The text fails with \<^verbatim>\<open>No JSON found in LLM response\<close> exactly when it has no opening
  brace with a closing brace after it.  Otherwise the span from the first opening brace
  to the last closing brace is handed to \<^verbatim>\<open>JSON.parse\<close>, and the outcome is the parsed value
  or the \<^verbatim>\<open>SyntaxError\<close> of the parser.
\<close>

theorem extractJson_span:
  "(extractJson parse t = Inl (Error ''No JSON found in LLM response'')
      \<longleftrightarrow> \<not> (\<exists>pre body post. t = pre @ CHR ''{'' # body @ CHR ''}'' # post))
   \<and> (CHR ''{'' \<notin> set pre \<and> CHR ''}'' \<notin> set post \<longrightarrow>
        extractJson parse (pre @ CHR ''{'' # body @ CHR ''}'' # post)
          = (case parse (CHR ''{'' # body @ ''}'') of
               Inl msg \<Rightarrow> Inl (SyntaxError msg)
             | Inr llmResult \<Rightarrow> Inr llmResult))"
proof (intro conjI impI)
  have "extractJson parse t = Inl (Error ''No JSON found in LLM response'') \<longleftrightarrow> jsonMatch t = None"
    by (auto simp: extractJson_def split: option.splits sum.splits)
  then show "extractJson parse t = Inl (Error ''No JSON found in LLM response'')
      \<longleftrightarrow> \<not> (\<exists>pre body post. t = pre @ CHR ''{'' # body @ CHR ''}'' # post)"
    by (simp only: jsonMatch_None)
next
  assume "CHR ''{'' \<notin> set pre \<and> CHR ''}'' \<notin> set post"
  then have "jsonMatch (pre @ CHR ''{'' # body @ CHR ''}'' # post) = Some (CHR ''{'' # body @ ''}'')"
    by (simp add: jsonMatch_append)
  then show "extractJson parse (pre @ CHR ''{'' # body @ CHR ''}'' # post)
          = (case parse (CHR ''{'' # body @ ''}'') of
               Inl msg \<Rightarrow> Inl (SyntaxError msg)
             | Inr llmResult \<Rightarrow> Inr llmResult)"
    by (simp add: extractJson_def)
qed

theorem extractJson_span_witness:
  \<open>CHR ''{'' \<notin> set ''Here is the analysis: '' \<and> CHR ''}'' \<notin> set '' Good luck.''
   \<and> extractJson
         (\<lambda>s. if s = ''{"Gaps": "none"}'' then Inr (JObj [(''Gaps'', JStr ''none'')])
              else Inl ''Unexpected end of JSON input'')
         ''Here is the analysis: {"Gaps": "none"} Good luck.''
       = Inr (JObj [(''Gaps'', JStr ''none'')])\<close>
  using extractJson_span
    [where pre = "''Here is the analysis: ''" and post = "'' Good luck.''"
       and body = \<open>''"Gaps": "none"''\<close>
       and parse = \<open>\<lambda>s. if s = ''{"Gaps": "none"}'' then Inr (JObj [(''Gaps'', JStr ''none'')])
                        else Inl ''Unexpected end of JSON input''\<close>]
  by simp

text \<open>
  A text whose span is no JSON text fails with the \<^verbatim>\<open>SyntaxError\<close> that \<^verbatim>\<open>JSON.parse\<close> throws
  for the span.
\<close>

theorem extractJson_syntax_error:
  "jsonMatch ''Result: {not json}'' = Some ''{not json}''
   \<and> extractJson (\<lambda>s. Inl ''Unexpected token n in JSON at position 1'') ''Result: {not json}''
       = Inl (SyntaxError ''Unexpected token n in JSON at position 1'')"
  by (simp add: extractJson_def)

lemma firstMissing_None:
  "firstMissing r tab = None \<longleftrightarrow> (\<forall>(f, ks) \<in> set tab. list_ex (\<lambda>k. truthy (getProp r k)) ks)"
  by (induction tab) (auto split: if_splits)

text \<open>
  C3.  The reply is accepted exactly when every required field has a truthy value under
  one of its accepted keys, and is then returned unchanged; otherwise the error names
  the first field, in the order of the checks, that has none.  Two keys are accepted
  for the name and for the scores, only the capitalised key for the other five fields.
\<close>

theorem validateFields_table:
  "validateFields (JObj kvs) =
     (case firstMissing (JObj kvs) acceptedKeys of
        None \<Rightarrow> Inr (JObj kvs)
      | Some f \<Rightarrow> Inl (missingField f))
   \<and> (isl (validateFields (JObj kvs)) \<longleftrightarrow>
        (\<exists>(f, ks) \<in> set acceptedKeys. \<not> list_ex (\<lambda>k. truthy (map_of kvs k)) ks))"
proof -
  have t: "validateFields (JObj kvs) =
     (case firstMissing (JObj kvs) acceptedKeys of
        None \<Rightarrow> Inr (JObj kvs)
      | Some f \<Rightarrow> Inl (missingField f))"
    by (simp add: validateFields_def acceptedKeys_def)
  have "isl (validateFields (JObj kvs)) \<longleftrightarrow> firstMissing (JObj kvs) acceptedKeys \<noteq> None"
    by (simp add: t split: option.splits)
  also have "\<dots> \<longleftrightarrow> (\<exists>(f, ks) \<in> set acceptedKeys. \<not> list_ex (\<lambda>k. truthy (map_of kvs k)) ks)"
    by (simp only: firstMissing_None) auto
  finally show ?thesis using t by simp
qed

theorem validateFields_table_witness:
  "validateFields
     (JObj [(''studentName'', JStr ''Asha Rao''),
            (''Scores'', JObj [(''Financial Planning'', JNum (Fin 80))]),
            (''Overall Readiness Index'', JNum (Fin 72)),
            (''Readiness Level'', JStr ''Good''),
            (''Strengths'', JStr ''Clear goals''),
            (''Gaps'', JArr [JStr ''Funding'']),
            (''Recommendations'', JStr ''Apply for scholarships'')])
   = Inr (JObj [(''studentName'', JStr ''Asha Rao''),
            (''Scores'', JObj [(''Financial Planning'', JNum (Fin 80))]),
            (''Overall Readiness Index'', JNum (Fin 72)),
            (''Readiness Level'', JStr ''Good''),
            (''Strengths'', JStr ''Clear goals''),
            (''Gaps'', JArr [JStr ''Funding'']),
            (''Recommendations'', JStr ''Apply for scholarships'')])"
  using validateFields_table
    [of "[(''studentName'', JStr ''Asha Rao''),
          (''Scores'', JObj [(''Financial Planning'', JNum (Fin 80))]),
          (''Overall Readiness Index'', JNum (Fin 72)),
          (''Readiness Level'', JStr ''Good''),
          (''Strengths'', JStr ''Clear goals''),
          (''Gaps'', JArr [JStr ''Funding'']),
          (''Recommendations'', JStr ''Apply for scholarships'')]"]
  by (simp add: acceptedKeys_def)

text \<open>
  A reply that is complete but for the key of its strengths, which is in lowerCamelCase,
  is rejected, and so is a reply with all seven fields under lowerCamelCase keys.
\<close>

theorem validateFields_camelCase:
  "validateFields
     (JObj [(''Student Name'', JStr ''Asha Rao''),
            (''Scores'', JObj [(''Financial Planning'', JNum (Fin 80))]),
            (''Overall Readiness Index'', JNum (Fin 72)),
            (''Readiness Level'', JStr ''Good''),
            (''strengths'', JStr ''Clear goals''),
            (''Gaps'', JStr ''Funding''),
            (''Recommendations'', JStr ''Apply for scholarships'')])
   = Inl (Error ''LLM response missing required field: Strengths'')
   \<and> validateFields
     (JObj [(''studentName'', JStr ''Asha Rao''),
            (''scores'', JObj [(''Financial Planning'', JNum (Fin 80))]),
            (''overallIndex'', JNum (Fin 72)),
            (''readinessLevel'', JStr ''Good''),
            (''strengths'', JStr ''Clear goals''),
            (''gaps'', JStr ''Funding''),
            (''recommendations'', JStr ''Apply for scholarships'')])
   = Inl (Error ''LLM response missing required field: Overall Readiness Index'')"
  by (simp add: validateFields_def missingField_def)

section \<open>Properties of the report values\<close>

lemma truthy_js_or: "truthy (js_or a b) \<longleftrightarrow> truthy a \<or> truthy b"
  by (simp add: js_or_def)

lemma required_truthy: "truthy a \<Longrightarrow> \<exists>v. a = Some v \<and> required a msg = Inr v"
  by (cases a) (simp_all add: required_def)

lemma required_falsy: "\<not> truthy a \<Longrightarrow> required a msg = Inl (Error msg)"
  by (cases a) (simp_all add: required_def)

lemma secondPage_without_entries:
  "countryFit r = JArr [] \<Longrightarrow> secondPage toNumber r = Inr None"
  by (simp add: secondPage_def hasEntries_def andThen_def)

lemma template_without_entries:
  "countryFit r = JArr [] \<Longrightarrow>
   list_all converts ([studentEmail r, studentPhone r, overallIndex r, readinessLevel r] @ scores r) \<Longrightarrow>
   template toNumber r = Inr None"
  by (simp add: template_def secondPage_without_entries)

text \<open>
  C10.  For a record with a name and scores.  The index is missing only when it is
  \<^verbatim>\<open>undefined\<close> after the fallback: a falsy \<^verbatim>\<open>Overall Readiness Index\<close>, 0 included, is
  rejected when the key \<^verbatim>\<open>overallIndex\<close> is absent.  When that key is there, its value is the
  index, whatever it is: with the level and the three texts truthy all checks pass, and
  the report is rendered with that index whenever the template itself succeeds, which
  it does when there are no country suggestions and the values of the first page can be
  written.  The level is missing when neither key holds a truthy value, the empty string
  included.
\<close>

theorem generateHTMLContent_index_level:
  assumes "truthy (js_or (map_of kvs ''Student Name'') (map_of kvs ''studentName''))"
    and "truthy (js_or (js_or (map_of kvs ''scores'') (map_of kvs ''Scores'')) (map_of kvs ''Scores''))"
  shows "(\<not> truthy (map_of kvs ''Overall Readiness Index'') \<and> map_of kvs ''overallIndex'' = None
          \<longrightarrow> generateHTMLContent toNumber (JObj kvs)
                = Inl (Error ''Overall Readiness Index is required''))
       \<and> (\<not> truthy (map_of kvs ''Overall Readiness Index'') \<and> map_of kvs ''overallIndex'' = Some v
            \<and> truthy (js_or (map_of kvs ''Readiness Level'') (map_of kvs ''readinessLevel''))
            \<and> truthy (map_of kvs ''Strengths'') \<and> truthy (map_of kvs ''Gaps'')
            \<and> truthy (map_of kvs ''Recommendations'')
          \<longrightarrow> (\<exists>r. checkedValues (JObj kvs) = Inr r \<and> overallIndex r = v
                 \<and> generateHTMLContent toNumber (JObj kvs)
                     = andThen (template toNumber r) (\<lambda>page. Inr (r, page))
                 \<and> (\<not> truthy (map_of kvs ''Country Fit (Top 3)'')
                      \<and> list_all converts
                           ([studentEmail r, studentPhone r, v, readinessLevel r] @ scores r)
                      \<longrightarrow> generateHTMLContent toNumber (JObj kvs) = Inr (r, None))))
       \<and> (js_or (map_of kvs ''Overall Readiness Index'') (map_of kvs ''overallIndex'') \<noteq> None
            \<and> \<not> truthy (map_of kvs ''Readiness Level'') \<and> \<not> truthy (map_of kvs ''readinessLevel'')
          \<longrightarrow> generateHTMLContent toNumber (JObj kvs) = Inl (Error ''Readiness Level is required''))"
proof -
  obtain n where n: "required (js_or (map_of kvs ''Student Name'') (map_of kvs ''studentName''))
      ''Student Name is required'' = Inr n"
    using required_truthy [OF assms(1)] by blast
  obtain sc where sc: "required (js_or (js_or (map_of kvs ''scores'') (map_of kvs ''Scores''))
      (map_of kvs ''Scores'')) ''Scores data is required'' = Inr sc"
    using required_truthy [OF assms(2)] by blast
  show ?thesis
  proof (intro conjI impI)
    assume "\<not> truthy (map_of kvs ''Overall Readiness Index'') \<and> map_of kvs ''overallIndex'' = None"
    then have i: "defined (js_or (map_of kvs ''Overall Readiness Index'') (map_of kvs ''overallIndex''))
        ''Overall Readiness Index is required'' = Inl (Error ''Overall Readiness Index is required'')"
      by (simp add: js_or_def defined_def)
    have "checkedValues (JObj kvs) = Inl (Error ''Overall Readiness Index is required'')"
      by (simp add: checkedValues_def n sc i andThen_def)
    then show "generateHTMLContent toNumber (JObj kvs)
        = Inl (Error ''Overall Readiness Index is required'')"
      by (simp add: generateHTMLContent_def andThen_def)
  next
    assume h: "\<not> truthy (map_of kvs ''Overall Readiness Index'') \<and> map_of kvs ''overallIndex'' = Some v
            \<and> truthy (js_or (map_of kvs ''Readiness Level'') (map_of kvs ''readinessLevel''))
            \<and> truthy (map_of kvs ''Strengths'') \<and> truthy (map_of kvs ''Gaps'')
            \<and> truthy (map_of kvs ''Recommendations'')"
    obtain l where l: "required (js_or (map_of kvs ''Readiness Level'') (map_of kvs ''readinessLevel''))
        ''Readiness Level is required'' = Inr l"
      using required_truthy h by blast
    obtain s where s: "required (map_of kvs ''Strengths'') ''Strengths analysis is required'' = Inr s"
      using required_truthy h by blast
    obtain g where g: "required (map_of kvs ''Gaps'') ''Gaps analysis is required'' = Inr g"
      using required_truthy h by blast
    obtain rc where rc: "required (map_of kvs ''Recommendations'') ''Recommendations are required'' = Inr rc"
      using required_truthy h by blast
    have i: "defined (js_or (map_of kvs ''Overall Readiness Index'') (map_of kvs ''overallIndex''))
        ''Overall Readiness Index is required'' = Inr v"
      using h by (simp add: js_or_def defined_def)
    obtain r where r: "checkedValues (JObj kvs) = Inr r" and ri: "overallIndex r = v"
      and rf: "countryFit r = orElse (map_of kvs ''Country Fit (Top 3)'') (JArr [])"
      by (simp add: checkedValues_def n sc i l s g rc andThen_def)
    have gen: "generateHTMLContent toNumber (JObj kvs)
        = andThen (template toNumber r) (\<lambda>page. Inr (r, page))"
      by (simp add: generateHTMLContent_def r andThen_def)
    have "generateHTMLContent toNumber (JObj kvs) = Inr (r, None)"
      if "\<not> truthy (map_of kvs ''Country Fit (Top 3)'')
          \<and> list_all converts ([studentEmail r, studentPhone r, v, readinessLevel r] @ scores r)"
    proof -
      from that have "countryFit r = JArr []"
        by (cases "map_of kvs ''Country Fit (Top 3)''") (simp_all add: rf orElse_def)
      moreover from that ri
      have "list_all converts
              ([studentEmail r, studentPhone r, overallIndex r, readinessLevel r] @ scores r)"
        by simp
      ultimately have "template toNumber r = Inr None" by (rule template_without_entries)
      then show ?thesis by (simp add: gen andThen_def)
    qed
    with r ri gen
    show "\<exists>r. checkedValues (JObj kvs) = Inr r \<and> overallIndex r = v
                 \<and> generateHTMLContent toNumber (JObj kvs)
                     = andThen (template toNumber r) (\<lambda>page. Inr (r, page))
                 \<and> (\<not> truthy (map_of kvs ''Country Fit (Top 3)'')
                      \<and> list_all converts
                           ([studentEmail r, studentPhone r, v, readinessLevel r] @ scores r)
                      \<longrightarrow> generateHTMLContent toNumber (JObj kvs) = Inr (r, None))"
      by blast
  next
    assume h: "js_or (map_of kvs ''Overall Readiness Index'') (map_of kvs ''overallIndex'') \<noteq> None
            \<and> \<not> truthy (map_of kvs ''Readiness Level'') \<and> \<not> truthy (map_of kvs ''readinessLevel'')"
    then obtain i where i: "defined (js_or (map_of kvs ''Overall Readiness Index'') (map_of kvs ''overallIndex''))
        ''Overall Readiness Index is required'' = Inr i"
      by (auto simp: defined_def)
    have "\<not> truthy (js_or (map_of kvs ''Readiness Level'') (map_of kvs ''readinessLevel''))"
      using h by (simp add: truthy_js_or)
    then have l: "required (js_or (map_of kvs ''Readiness Level'') (map_of kvs ''readinessLevel''))
        ''Readiness Level is required'' = Inl (Error ''Readiness Level is required'')"
      by (rule required_falsy)
    have "checkedValues (JObj kvs) = Inl (Error ''Readiness Level is required'')"
      by (simp add: checkedValues_def n sc i l andThen_def)
    then show "generateHTMLContent toNumber (JObj kvs) = Inl (Error ''Readiness Level is required'')"
      by (simp add: generateHTMLContent_def andThen_def)
  qed
qed

text \<open>
  An index of 0 under the canonical key alone is rejected; under both keys it is the
  index of the report; an empty level is rejected.
\<close>

theorem generateHTMLContent_index_level_witness:
  "generateHTMLContent (\<lambda>x. NaN)
     (JObj ((''Overall Readiness Index'', JNum (Fin 0)) #
            (''Readiness Level'', JStr ''Low'') #
            (''Student Name'', JStr ''Asha Rao'') #
            (''Scores'', JObj [(''Financial Planning'', JNum (Fin 0))]) #
            (''Strengths'', JStr ''None yet'') #
            (''Gaps'', JStr ''Funding, language'') #
            [(''Recommendations'', JStr ''Start with budgeting'')]))
     = Inl (Error ''Overall Readiness Index is required'')
   \<and> (\<exists>r. generateHTMLContent (\<lambda>x. NaN)
     (JObj ((''Overall Readiness Index'', JNum (Fin 0)) #
            (''overallIndex'', JNum (Fin 0)) #
            (''Readiness Level'', JStr ''Low'') #
            (''Student Name'', JStr ''Asha Rao'') #
            (''Scores'', JObj [(''Financial Planning'', JNum (Fin 0))]) #
            (''Strengths'', JStr ''None yet'') #
            (''Gaps'', JStr ''Funding, language'') #
            [(''Recommendations'', JStr ''Start with budgeting'')]))
     = Inr (r, None) \<and> overallIndex r = JNum (Fin 0))
   \<and> generateHTMLContent (\<lambda>x. NaN)
     (JObj ((''Overall Readiness Index'', JNum (Fin 35)) #
            (''Readiness Level'', JStr []) #
            (''Student Name'', JStr ''Asha Rao'') #
            (''Scores'', JObj [(''Financial Planning'', JNum (Fin 0))]) #
            (''Strengths'', JStr ''None yet'') #
            (''Gaps'', JStr ''Funding, language'') #
            [(''Recommendations'', JStr ''Start with budgeting'')]))
     = Inl (Error ''Readiness Level is required'')"
  using generateHTMLContent_index_level
          [of "(''Overall Readiness Index'', JNum (Fin 0)) #
            (''Readiness Level'', JStr ''Low'') #
            (''Student Name'', JStr ''Asha Rao'') #
            (''Scores'', JObj [(''Financial Planning'', JNum (Fin 0))]) #
            (''Strengths'', JStr ''None yet'') #
            (''Gaps'', JStr ''Funding, language'') #
            [(''Recommendations'', JStr ''Start with budgeting'')]" "\<lambda>x. NaN" JNull]
        generateHTMLContent_index_level
          [of "(''Overall Readiness Index'', JNum (Fin 0)) #
            (''overallIndex'', JNum (Fin 0)) #
            (''Readiness Level'', JStr ''Low'') #
            (''Student Name'', JStr ''Asha Rao'') #
            (''Scores'', JObj [(''Financial Planning'', JNum (Fin 0))]) #
            (''Strengths'', JStr ''None yet'') #
            (''Gaps'', JStr ''Funding, language'') #
            [(''Recommendations'', JStr ''Start with budgeting'')]" "\<lambda>x. NaN" "JNum (Fin 0)"]
        generateHTMLContent_index_level
          [of "(''Overall Readiness Index'', JNum (Fin 35)) #
            (''Readiness Level'', JStr []) #
            (''Student Name'', JStr ''Asha Rao'') #
            (''Scores'', JObj [(''Financial Planning'', JNum (Fin 0))]) #
            (''Strengths'', JStr ''None yet'') #
            (''Gaps'', JStr ''Funding, language'') #
            [(''Recommendations'', JStr ''Start with budgeting'')]" "\<lambda>x. NaN" JNull]
  by (auto simp: js_or_def checkedValues_def required_def defined_def andThen_def orElse_def
        nullish_def scoreKeys_def template_def secondPage_def hasEntries_def)

text \<open>
  A report with the index 0 under both keys is rendered with the index 0, the page of
  the country suggestions included.
\<close>

theorem generateHTMLContent_renders_zero:
  "map_sum id (\<lambda>(r, page). (overallIndex r, map_option (map matchPercent \<circ> countryMatrix) page))
     (generateHTMLContent (\<lambda>x. NaN)
        (JObj [(''Student Name'', JStr ''Asha Rao''),
               (''Scores'', JObj [(''Financial Planning'', JNum (Fin 0))]),
               (''Overall Readiness Index'', JNum (Fin 0)),
               (''overallIndex'', JNum (Fin 0)),
               (''Readiness Level'', JStr ''Low''),
               (''Strengths'', JStr ''None yet''),
               (''Gaps'', JStr ''Funding, language''),
               (''Recommendations'', JStr ''Start with budgeting''),
               (''Country Fit (Top 3)'', JArr [JStr ''Germany'', JStr ''Ireland''])]))
   = Inr (JNum (Fin 0), Some [JNum (Fin 100), JNum (Fin 85)])"
  by code_simp

text \<open>
  Past the checks the template can still throw: an element of \<^verbatim>\<open>Strengths\<close> that is not a
  string has no \<^verbatim>\<open>trim\<close>, a country suggestion that is \<^verbatim>\<open>null\<close> has no \<^verbatim>\<open>country\<close>, and an
  index that is an object with a property \<^verbatim>\<open>toString\<close> cannot be written.
\<close>

lemma generateHTMLContent_template_throws:
  "generateHTMLContent toNumber
        (JObj [(''Student Name'', JStr ''Asha Rao''),
               (''Scores'', JObj []),
               (''Overall Readiness Index'', JNum (Fin 40)),
               (''Readiness Level'', JStr ''Low''),
               (''Strengths'', JArr [JNum (Fin 5)]),
               (''Gaps'', JStr ''Funding''),
               (''Recommendations'', JStr ''Budget''),
               (''Country Fit (Top 3)'', JArr [JNull])])
   = Inl TypeError"
  by (simp add: generateHTMLContent_def checkedValues_def template_def secondPage_def
        hasEntries_def required_def defined_def js_or_def orElse_def nullish_def scoreKeys_def
        andThen_def formatToBulletPoints_def trimItem_def)

lemma generateHTMLContent_conversion_throws:
  "generateHTMLContent toNumber
        (JObj [(''Student Name'', JStr ''Asha Rao''),
               (''Scores'', JObj []),
               (''Overall Readiness Index'', JObj [(''toString'', JNum (Fin 1))]),
               (''Readiness Level'', JStr ''Low''),
               (''Strengths'', JStr ''None yet''),
               (''Gaps'', JStr ''Funding''),
               (''Recommendations'', JStr ''Budget'')])
   = Inl TypeError"
  by (simp add: generateHTMLContent_def checkedValues_def template_def
        required_def defined_def js_or_def orElse_def nullish_def scoreKeys_def andThen_def)

section \<open>Properties of the bullet points\<close>

lemma formatToBulletPoints_entries:
  "formatToBulletPoints text = andThen (bulletEntries text) (\<lambda>es. Inr (concat (map li es)))"
  by (auto simp: formatToBulletPoints_def bulletEntries_def andThen_def comp_def
           split: option.splits json.splits sum.splits)

lemma collect_trimItem: "collect (map trimItem (map JStr xs)) = Inr (map trim xs)"
  by (induction xs) (simp_all add: trimItem_def)

text \<open>An array of strings gives one entry for each element, in order, trimmed and not split.\<close>

lemma bulletEntries_strings:
  "bulletEntries (Some (JArr (map JStr xs))) = Inr (map trim xs)"
  using collect_trimItem [of xs] by (simp add: bulletEntries_def)

lemma bulletEntries_falsy:
  "\<not> truthy text \<Longrightarrow> bulletEntries text = Inr [''Information not available'']"
  by (simp add: bulletEntries_def)

text \<open>
  C6.  The empty array passes the check \<^verbatim>\<open>if (!strengths)\<close>, and the list written for it
  has no entry at all: the markup of the section is the empty string.
\<close>

theorem formatToBulletPoints_empty_array:
  "required (Some (JArr [])) ''Strengths analysis is required'' = Inr (JArr [])
   \<and> formatToBulletPoints (Some (JArr [])) = Inr []
   \<and> bulletEntries (Some (JArr [])) = Inr []"
  by (simp add: required_def formatToBulletPoints_def bulletEntries_def andThen_def)


text \<open>The entries of every list are trimmed: trimming is idempotent.\<close>

lemma last_dropWhile: "dropWhile P xs \<noteq> [] \<Longrightarrow> last (dropWhile P xs) = last xs"
  by (induction xs) (auto split: if_splits)

lemma trim_ends: "trim s = [] \<or> (\<not> isSpace (hd (trim s)) \<and> \<not> isSpace (last (trim s)))"
proof (cases "trim s = []")
  case True
  then show ?thesis by simp
next
  case False
  define d where "d = dropWhile isSpace s"
  define e where "e = dropWhile isSpace (rev d)"
  have t: "trim s = rev e" by (simp add: trim_def d_def e_def)
  with False have e: "e \<noteq> []" by simp
  then have d: "d \<noteq> []" by (auto simp: e_def)
  have "\<not> isSpace (hd e)" using e unfolding e_def by (rule hd_dropWhile)
  then have l: "\<not> isSpace (last (rev e))" using e by (simp add: last_rev)
  have "last e = last (rev d)" using e unfolding e_def by (rule last_dropWhile)
  also have "\<dots> = hd d" using d by (simp add: last_rev)
  finally have "hd (rev e) = hd d" using e by (simp add: hd_rev)
  moreover have "\<not> isSpace (hd d)" using d unfolding d_def by (rule hd_dropWhile)
  ultimately show ?thesis using l by (simp add: t)
qed

lemma trim_fixed:
  assumes "s = [] \<or> (\<not> isSpace (hd s) \<and> \<not> isSpace (last s))"
  shows "trim s = s"
proof (cases "s = []")
  case True
  then show ?thesis by (simp add: trim_def)
next
  case False
  with assms have h: "\<not> isSpace (hd s)" and l: "\<not> isSpace (last s)" by simp_all
  have 1: "dropWhile isSpace s = s" using h by (simp add: dropWhile_eq_self_iff)
  have "hd (rev s) = last s" using False by (simp add: hd_rev)
  then have "dropWhile isSpace (rev s) = rev s" using l by (simp add: dropWhile_eq_self_iff)
  then show ?thesis by (simp add: trim_def 1)
qed

lemma trim_trim: "trim (trim s) = trim s"
  using trim_ends [of s] by (rule trim_fixed)

lemma trim_removeLeadingNumber:
  "trim (removeLeadingNumber (trim p)) = removeLeadingNumber (trim p)"
proof -
  define s where "s = trim p"
  have s: "s = [] \<or> (\<not> isSpace (hd s) \<and> \<not> isSpace (last s))"
    unfolding s_def by (rule trim_ends)
  have "removeLeadingNumber s = []
      \<or> (\<not> isSpace (hd (removeLeadingNumber s)) \<and> \<not> isSpace (last (removeLeadingNumber s)))"
  proof (cases "s \<noteq> [] \<and> isDigit (hd s)")
    case False
    then have "removeLeadingNumber s = s"
      by (cases s) (simp_all add: removeLeadingNumber_def)
    with s show ?thesis by simp
  next
    case True
    define r0 where "r0 = dropWhile isDigit s"
    define r' where "r' = (case r0 of [] \<Rightarrow> [] | d # t \<Rightarrow> if d = CHR ''.'' then t else r0)"
    define r where "r = dropWhile isSpace r'"
    have rl: "removeLeadingNumber s = r"
      using True unfolding removeLeadingNumber_def r_def r'_def r0_def Let_def
      by (cases s) auto
    show ?thesis
    proof (cases "r = []")
      case True
      then show ?thesis by (simp add: rl)
    next
      case False
      then have r'n: "r' \<noteq> []" by (auto simp: r_def)
      then have r0n: "r0 \<noteq> []" by (auto simp: r'_def)
      have "last r = last r'" using False unfolding r_def by (rule last_dropWhile)
      also have "last r' = last r0"
        using r'n by (cases r0) (auto simp: r'_def split: if_splits)
      also have "last r0 = last s" using r0n unfolding r0_def by (rule last_dropWhile)
      finally have "last r = last s" .
      moreover have "\<not> isSpace (last s)" using s True by auto
      moreover have "\<not> isSpace (hd r)" using False unfolding r_def by (rule hd_dropWhile)
      ultimately show ?thesis by (simp add: rl)
    qed
  qed
  then show ?thesis unfolding s_def by (rule trim_fixed)
qed

lemma collect_trimItem_trimmed:
  "collect (map trimItem items) = Inr es \<Longrightarrow> map trim es = es"
proof (induction items arbitrary: es)
  case Nil
  then show ?case by auto
next
  case (Cons x items)
  then show ?case
    by (cases x) (auto simp: trimItem_def trim_trim split: sum.splits)
qed

lemma bulletEntries_trimmed:
  assumes "bulletEntries text = Inr es"
  shows "map trim es = es"
proof (cases "truthy text")
  case False
  with assms have "es = [''Information not available'']" by (simp add: bulletEntries_def)
  then show ?thesis by (simp add: trim_def isSpace_def)
next
  case True
  then obtain v where v: "text = Some v" by (cases "text") auto
  show ?thesis
  proof (cases v)
    case (JArr items)
    with assms True v have "collect (map trimItem items) = Inr es" by (simp add: bulletEntries_def)
    then show ?thesis by (rule collect_trimItem_trimmed)
  next
    case (JStr s)
    with assms True v have
      "es = [''Information not available'']
       \<or> es = map (\<lambda>point. removeLeadingNumber (trim point)) (points s)"
      by (auto simp: bulletEntries_def split: if_splits)
    then show ?thesis
    proof
      assume "es = [''Information not available'']"
      then show ?thesis by (simp add: trim_def isSpace_def)
    next
      assume "es = map (\<lambda>point. removeLeadingNumber (trim point)) (points s)"
      then show ?thesis by (simp add: trim_removeLeadingNumber)
    qed
  next
    case JNull
    with True v show ?thesis by simp
  next
    case (JBool b)
    with assms True v have "es = [''Invalid input format'']" by (simp add: bulletEntries_def)
    then show ?thesis by (simp add: trim_def isSpace_def)
  next
    case (JNum n)
    with assms True v have "es = [''Invalid input format'']" by (simp add: bulletEntries_def)
    then show ?thesis by (simp add: trim_def isSpace_def)
  next
    case (JObj kvs)
    with assms True v have "es = [''Invalid input format'']" by (simp add: bulletEntries_def)
    then show ?thesis by (simp add: trim_def isSpace_def)
  qed
qed

text \<open>
  C7.  An array of strings gives one entry for each element, in order, trimmed and not
  split again.  The entries of any list, whatever it was made from, given back as an
  array give the same entries: the normalization is idempotent on its results.
\<close>

theorem bulletEntries_sequence:
  "bulletEntries (Some (JArr (map JStr xs))) = Inr (map trim xs)
   \<and> (bulletEntries text = Inr es \<longrightarrow> bulletEntries (Some (JArr (map JStr es))) = Inr es)"
proof (intro conjI impI)
  show "bulletEntries (Some (JArr (map JStr xs))) = Inr (map trim xs)"
    by (rule bulletEntries_strings)
next
  assume "bulletEntries text = Inr es"
  then have "map trim es = es" by (rule bulletEntries_trimmed)
  then show "bulletEntries (Some (JArr (map JStr es))) = Inr es"
    using bulletEntries_strings [of es] by simp
qed

text \<open>
  The entries of a numbered text, given back as an array, stay as they are; white space
  around an element is removed.
\<close>

theorem bulletEntries_sequence_witness:
  "bulletEntries (Some (JStr ''1 Plan the budget, 2 Apply early''))
     = Inr [''Plan the budget'', ''Apply early'']
   \<and> bulletEntries (Some (JArr (map JStr [''Plan the budget'', ''Apply early''])))
     = Inr [''Plan the budget'', ''Apply early'']
   \<and> bulletEntries (Some (JArr (map JStr ['' Plan the budget '', ''Apply early''])))
     = Inr [''Plan the budget'', ''Apply early'']"
proof -
  have 1: "bulletEntries (Some (JStr ''1 Plan the budget, 2 Apply early''))
     = Inr [''Plan the budget'', ''Apply early'']"
    by code_simp
  have 2: "map trim ['' Plan the budget '', ''Apply early''] = [''Plan the budget'', ''Apply early'']"
    by code_simp
  from 1 bulletEntries_sequence
         [of "['' Plan the budget '', ''Apply early'']" "Some (JStr ''1 Plan the budget, 2 Apply early'')"
             "[''Plan the budget'', ''Apply early'']"]
  show ?thesis by (simp only: 2 simp_thms)
qed

text \<open>
  The elements of an array keep their leading numbers, which the same text given as one
  string loses: only the fragments of a string have their numbers removed.
\<close>

theorem bulletEntries_array_keeps_marker:
  "bulletEntries (Some (JArr [JStr ''1 Plan the budget'', JStr ''2 Apply early'']))
     = Inr [''1 Plan the budget'', ''2 Apply early'']
   \<and> bulletEntries (Some (JStr ''1 Plan the budget, 2 Apply early''))
     = Inr [''Plan the budget'', ''Apply early'']"
  by code_simp

section \<open>Properties of the country suggestions\<close>







section \<open>Properties of the name of the attachment\<close>

lemma isSpace_hyphen: "\<not> isSpace CHR ''-''"
  by (simp add: isSpace_def)

lemma replaceSpaces_no_space: "filter isSpace (replaceSpaces s) = []"
  by (induction s rule: replaceSpaces.induct) (simp_all add: isSpace_hyphen)

lemma replaceSpaces_keep:
  "(\<forall>c \<in> set a. \<not> isSpace c) \<Longrightarrow> replaceSpaces (a @ b) = a @ replaceSpaces b"
  by (induction a) simp_all

lemma replaceSpaces_run:
  assumes "w \<noteq> []" "\<forall>c \<in> set w. isSpace c" "b = [] \<or> \<not> isSpace (hd b)"
  shows "replaceSpaces (w @ b) = CHR ''-'' # replaceSpaces b"
proof -
  obtain c w' where w: "w = c # w'" using assms(1) by (cases w) auto
  have "dropWhile isSpace (w' @ b) = dropWhile isSpace b"
    using assms(2) w by simp
  also have "\<dots> = b" using assms(3) by (simp add: dropWhile_eq_self_iff)
  finally show ?thesis using assms(2) w by simp
qed

text \<open>
  C8.  In the name of the attachment every maximal run of white space of the student's
  name is one hyphen and the letters are in lower case; every other character of the
  name is kept as it is.
\<close>

theorem filename_whitespace_runs:
  "(js_or (getProp results ''Student Name'') (getProp results ''studentName'') = Some (JStr (a @ w @ b))
      \<and> (\<forall>c \<in> set a. \<not> isSpace c) \<and> w \<noteq> [] \<and> (\<forall>c \<in> set w. isSpace c) \<and> (b = [] \<or> \<not> isSpace (hd b))
    \<longrightarrow> filename results
          = Inr (''psychometric-report-'' @ toLowerCase a @ ''-'' @ toLowerCase (replaceSpaces b) @ ''.pdf''))
   \<and> (js_or (getProp results ''Student Name'') (getProp results ''studentName'') = Some (JStr s)
      \<and> (\<forall>c \<in> set s. \<not> isSpace c)
    \<longrightarrow> filename results = Inr (''psychometric-report-'' @ toLowerCase s @ ''.pdf''))"
proof (intro conjI impI)
  assume h: "js_or (getProp results ''Student Name'') (getProp results ''studentName'') = Some (JStr (a @ w @ b))
      \<and> (\<forall>c \<in> set a. \<not> isSpace c) \<and> w \<noteq> [] \<and> (\<forall>c \<in> set w. isSpace c) \<and> (b = [] \<or> \<not> isSpace (hd b))"
  then have "replaceSpaces (a @ w @ b) = a @ CHR ''-'' # replaceSpaces b"
    by (simp add: replaceSpaces_keep replaceSpaces_run)
  with h show "filename results
          = Inr (''psychometric-report-'' @ toLowerCase a @ ''-'' @ toLowerCase (replaceSpaces b) @ ''.pdf'')"
    by (simp add: filename_def toLowerCase_def toLowerChar_def)
next
  assume h: "js_or (getProp results ''Student Name'') (getProp results ''studentName'') = Some (JStr s)
      \<and> (\<forall>c \<in> set s. \<not> isSpace c)"
  then have "replaceSpaces s = s"
    using replaceSpaces_keep [of s "[]"] by simp
  with h show "filename results = Inr (''psychometric-report-'' @ toLowerCase s @ ''.pdf'')"
    by (simp add: filename_def)
qed

theorem filename_whitespace_runs_witness:
  "filename (JObj [(''Student Name'', JStr ''Asha  Rao-Iyer'')])
     = Inr ''psychometric-report-asha-rao-iyer.pdf''
   \<and> filename (JObj [(''studentName'', JStr ''O'Neil,Jr.'')])
     = Inr ''psychometric-report-o'neil,jr..pdf''"
  using filename_whitespace_runs [of "JObj [(''Student Name'', JStr ''Asha  Rao-Iyer'')]" "''Asha''" "''  ''" "''Rao-Iyer''" "[]"]
        filename_whitespace_runs [of "JObj [(''studentName'', JStr ''O'Neil,Jr.'')]" "[]" "[]" "[]" "''O'Neil,Jr.''"]
  by (simp add: js_or_def isSpace_def toLowerCase_def toLowerChar_def)

text \<open>Full stops stay, so a run of a full stop and a space becomes two characters.\<close>

theorem filename_keeps_punctuation:
  "filename (JObj [(''Student Name'', JStr ''Dr. A. Rao'')]) = Inr ''psychometric-report-dr.-a.-rao.pdf''"
  by code_simp

end
